theory Spec2Isabelle
  imports Complex_Main
begin

section \<open>Memory, tensors and operator state\<close>

text \<open>
  The kernel of \<^verbatim>\<open>caffe2/sgd/momentum_sgd_op.h\<close> works on raw \<^verbatim>\<open>float*\<close> pointers that
  may alias, so memory is one flat store from addresses to values and a pointer is an
  address; \<^verbatim>\<open>p + k\<close> is address arithmetic and \<^verbatim>\<open>p[i]\<close> is the cell \<open>p + i\<close>.
  The element type is left abstract: the definitions use \<open>+\<close>, \<open>-\<close>, \<open>*\<close> and \<open>1\<close> only as
  operation symbols (sort \<open>{one, plus, minus, times}\<close>), in the order the C++ expressions
  apply them, and assume no algebraic law. Integer sizes and loop counters are unbounded
  \<open>int\<close>: tensor sizes are taken to fit the machine types.
\<close>

type_synonym addr = int
type_synonym 'a memory = "addr \<Rightarrow> 'a"

section \<open>The kernel \<^verbatim>\<open>momentum_sgd_update\<close>\<close>

text \<open>
  One iteration of the \<^verbatim>\<open>for\<close> loop (lines 21--34), for index \<open>i\<close>. The reads of
  \<^verbatim>\<open>g[i]\<close> and \<^verbatim>\<open>m[i]\<close> come first, then the write to \<^verbatim>\<open>nm[i]\<close>, then the write to
  \<^verbatim>\<open>ng[i]\<close>; \<^verbatim>\<open>param[i] -= ng[i]\<close> reads both cells from the memory as it is after
  those two writes. A null \<^verbatim>\<open>param\<close> is \<open>None\<close>. The local \<^verbatim>\<open>LR\<close> is written \<open>lr0\<close>.
\<close>

definition update_step ::
  "addr \<Rightarrow> addr \<Rightarrow> addr \<Rightarrow> addr \<Rightarrow> 'a \<Rightarrow> 'a \<Rightarrow> bool \<Rightarrow> addr option \<Rightarrow> int
    \<Rightarrow> 'a memory \<Rightarrow> ('a::{one,plus,minus,times}) memory" where
  "update_step g m ng nm lr0 momentum nesterov param i h =
     (let h2 =
        (if \<not> nesterov then
           let adjusted_gradient = lr0 * h (g + i) + momentum * h (m + i);
               h1 = h(nm + i := adjusted_gradient)
           in h1(ng + i := adjusted_gradient)
         else
           let mi = h (m + i);
               mi_new = momentum * mi + lr0 * h (g + i);
               h1 = h(nm + i := mi_new)
           in h1(ng + i := (1 + momentum) * mi_new - momentum * mi))
      in case param of
           None \<Rightarrow> h2
         | Some p \<Rightarrow> h2(p + i := h2 (p + i) - h2 (ng + i)))"

text \<open>The loop \<^verbatim>\<open>for (auto i = 0; i < N; ++i)\<close>, started at any \<open>i\<close>.\<close>

function update_loop ::
  "int \<Rightarrow> addr \<Rightarrow> addr \<Rightarrow> addr \<Rightarrow> addr \<Rightarrow> 'a \<Rightarrow> 'a \<Rightarrow> bool \<Rightarrow> addr option \<Rightarrow> int
    \<Rightarrow> 'a memory \<Rightarrow> ('a::{one,plus,minus,times}) memory" where
  "update_loop N g m ng nm lr0 momentum nesterov param i h =
     (if i < N
      then update_loop N g m ng nm lr0 momentum nesterov param (i + 1)
             (update_step g m ng nm lr0 momentum nesterov param i h)
      else h)"
  by pat_completeness auto
termination
  by (relation "measure (\<lambda>(N, g, m, ng, nm, lr0, momentum, nesterov, param, i, h). nat (N - i))")
    auto

declare update_loop.simps [simp del]

text \<open>
  \<^verbatim>\<open>momentum_sgd_update\<close> (lines 8--36): \<^verbatim>\<open>const float LR = lr[0]\<close> is read once, before
  the loop. The \<^verbatim>\<open>Context*\<close> argument is unused by the body and dropped.
\<close>

definition momentum_sgd_update ::
  "int \<Rightarrow> addr \<Rightarrow> addr \<Rightarrow> addr \<Rightarrow> addr \<Rightarrow> addr \<Rightarrow> 'a \<Rightarrow> bool \<Rightarrow> addr option
    \<Rightarrow> 'a memory \<Rightarrow> ('a::{one,plus,minus,times}) memory" where
  "momentum_sgd_update N g m ng nm lr momentum nesterov param h =
     (let lr0 = h lr
      in update_loop N g m ng nm lr0 momentum nesterov param 0 h)"

subsection \<open>Buffer layouts\<close>

text \<open>
  Two buffers of \<open>N\<close> cells at \<open>a\<close> and \<open>b\<close> do not overlap; an input buffer is either the
  very buffer an output is written to, or apart from it. \<open>layout_ok\<close> is the layout the
  operators are meant for: the outputs \<open>ng\<close>, \<open>nm\<close> and \<open>param\<close> are pairwise apart, and
  each of the inputs \<open>g\<close>, \<open>m\<close> is identical to or apart from each output.
\<close>

definition no_overlap :: "int \<Rightarrow> addr \<Rightarrow> addr \<Rightarrow> bool" where
  "no_overlap N a b \<longleftrightarrow> a + N \<le> b \<or> b + N \<le> a"

definition same_or_apart :: "int \<Rightarrow> addr \<Rightarrow> addr \<Rightarrow> bool" where
  "same_or_apart N a b \<longleftrightarrow> a = b \<or> no_overlap N a b"

definition layout_ok :: "int \<Rightarrow> addr \<Rightarrow> addr \<Rightarrow> addr \<Rightarrow> addr \<Rightarrow> addr option \<Rightarrow> bool" where
  "layout_ok N g m ng nm param \<longleftrightarrow>
     no_overlap N ng nm \<and>
     same_or_apart N g ng \<and> same_or_apart N g nm \<and>
     same_or_apart N m ng \<and> same_or_apart N m nm \<and>
     (case param of
        None \<Rightarrow> True
      | Some p \<Rightarrow> no_overlap N p ng \<and> no_overlap N p nm \<and>
                  same_or_apart N g p \<and> same_or_apart N m p)"

text \<open>Address \<open>a\<close> lies in the buffer of \<open>N\<close> cells at \<open>p\<close>.\<close>

definition in_buffer :: "addr \<Rightarrow> int \<Rightarrow> addr \<Rightarrow> bool" where
  "in_buffer p N a \<longleftrightarrow> p \<le> a \<and> a < p + N"

text \<open>The values the recurrence assigns at one index, from the values read there.\<close>

definition nm_value :: "bool \<Rightarrow> 'a \<Rightarrow> 'a \<Rightarrow> 'a \<Rightarrow> 'a \<Rightarrow> ('a::{one,plus,minus,times})" where
  "nm_value nesterov lr0 momentum gi mi =
     (if \<not> nesterov then lr0 * gi + momentum * mi else momentum * mi + lr0 * gi)"

definition ng_value :: "bool \<Rightarrow> 'a \<Rightarrow> 'a \<Rightarrow> 'a \<Rightarrow> 'a \<Rightarrow> ('a::{one,plus,minus,times})" where
  "ng_value nesterov lr0 momentum gi mi =
     (if \<not> nesterov then lr0 * gi + momentum * mi
      else (1 + momentum) * (momentum * mi + lr0 * gi) - momentum * mi)"


section \<open>Tensors and the operator's view of the workspace\<close>

text \<open>
  Modelled from the spec: the host's \<^verbatim>\<open>Tensor\<close> class (\<^verbatim>\<open>caffe2/core/tensor.h\<close>) is
  not part of the sources at hand. A tensor is its shape and the address of its storage;
  \<^verbatim>\<open>size()\<close> is the product of the dimensions, \<^verbatim>\<open>dim(i)\<close> the \<open>i\<close>-th dimension
  (no value when the tensor has fewer dimensions), \<^verbatim>\<open>data()\<close> and \<^verbatim>\<open>mutable_data()\<close>
  the storage address, and \<^verbatim>\<open>ResizeLike\<close> gives a tensor the shape of another and keeps
  its storage (``output buffers for gradient and momentum are always shaped identically to
  their corresponding inputs''; the host owns allocation).
\<close>

record tensor =
  dims :: "nat list"
  data :: addr

text \<open>Modelled from the spec: \<^verbatim>\<open>Tensor::size()\<close>, the number of elements.\<close>

definition tsize :: "tensor \<Rightarrow> int" where
  "tsize t = int (prod_list (dims t))"

text \<open>
  Modelled from the spec: \<^verbatim>\<open>Tensor::dim(i)\<close>; for a gradient of \<open>n\<close> rows, \<^verbatim>\<open>dim(0)\<close> is
  the row count \<open>n\<close>.
\<close>

definition tdim :: "tensor \<Rightarrow> nat \<Rightarrow> int option" where
  "tdim t i = (if i < length (dims t) then Some (int (dims t ! i)) else None)"

text \<open>
  Modelled from the spec: \<^verbatim>\<open>Tensor::ResizeLike(src)\<close>; the shape becomes that of \<open>src\<close>,
  the storage address stays.
\<close>

definition ResizeLike :: "tensor \<Rightarrow> tensor \<Rightarrow> tensor" where
  "ResizeLike t src = t\<lparr>dims := dims src\<rparr>"

text \<open>
  Modelled from the spec: the index list is a read-only tensor of integers whose element
  type is a 32-bit or a 64-bit signed integer, or something else that the dispatch of
  \<^verbatim>\<open>RunOnDevice\<close> rejects. Its \<^verbatim>\<open>size()\<close> is the number of its entries.
\<close>

datatype index_type = Int32 | Int64 | OtherType

record index_tensor =
  ityp :: index_type
  ivals :: "int list"

text \<open>Modelled from the spec: \<^verbatim>\<open>size()\<close> of the index tensor, the length of the index list.\<close>

definition isize :: "index_tensor \<Rightarrow> int" where
  "isize t = int (length (ivals t))"

text \<open>
  \<^verbatim>\<open>INPUT_TAGS(GRAD, MOMENTUM, LR, PARAM, INDICES)\<close> and
  \<^verbatim>\<open>OUTPUT_TAGS(OUTPUT_GRAD, OUTPUT_MOMENTUM, OUTPUT_PARAM)\<close>. The state an operator runs
  in is the tensors behind its input and output tags and the memory. Every float input is
  a tensor by its type, so the two \<^verbatim>\<open>InputIsType\<close> enforcements always pass. An
  operator that runs in place has an output tensor with the storage address of an input.
\<close>

datatype input_tag = GRAD | MOMENTUM | LR | PARAM

datatype output_tag = OUTPUT_GRAD | OUTPUT_MOMENTUM | OUTPUT_PARAM

record 'a state =
  Input :: "input_tag \<Rightarrow> tensor"
  INDICES :: index_tensor
  Output :: "output_tag \<Rightarrow> tensor"
  mem :: "'a memory"

text \<open>
  The operator's members \<^verbatim>\<open>momentum_\<close> and \<^verbatim>\<open>nesterov_\<close>, set at construction
  (an identifier cannot end in an underscore here).
\<close>

record 'a operator =
  op_momentum :: 'a
  op_nesterov :: bool

text \<open>
  A failed \<^verbatim>\<open>CAFFE_ENFORCE\<close> throws \<^verbatim>\<open>EnforceNotMet\<close> (the spec's ShapeMismatch for the
  size checks). \<open>UnsupportedType\<close> is the failed dispatch on the index type,
  \<open>DimOutOfRange\<close> is \<^verbatim>\<open>dim(0)\<close> of a tensor without dimensions and \<open>DivisionByZero\<close>
  is the integer division \<^verbatim>\<open>size() / n\<close> with \<open>n = 0\<close>; C++ leaves the last two undefined.
  A run returns its outcome together with the state it leaves behind.
\<close>

datatype error = EnforceNotMet | UnsupportedType | DimOutOfRange | DivisionByZero

text \<open>The statement \<^verbatim>\<open>Output(out)->ResizeLike(Input(inp))\<close>.\<close>

definition resize_output :: "output_tag \<Rightarrow> input_tag \<Rightarrow> 'a state \<Rightarrow> 'a state" where
  "resize_output out inp s =
     s\<lparr>Output := (Output s)(out := ResizeLike (Output s out) (Input s inp))\<rparr>"

section \<open>The dense operators\<close>

text \<open>\<^verbatim>\<open>MomentumSGDOp::RunOnDevice\<close> (lines 47--68); the kernel gets \<^verbatim>\<open>NULL\<close> for \<^verbatim>\<open>param\<close>.\<close>

definition MomentumSGDOp_RunOnDevice ::
  "'a operator \<Rightarrow> 'a state \<Rightarrow> (error + bool) \<times> ('a::{one,plus,minus,times}) state" where
  "MomentumSGDOp_RunOnDevice this s =
     (if tsize (Input s LR) \<noteq> 1 then (Inl EnforceNotMet, s)
      else if tsize (Input s GRAD) \<noteq> tsize (Input s MOMENTUM) then (Inl EnforceNotMet, s)
      else
        let s1 = resize_output OUTPUT_GRAD GRAD s;
            s2 = resize_output OUTPUT_MOMENTUM MOMENTUM s1
        in (Inr True,
            s2\<lparr>mem :=
              momentum_sgd_update
                (tsize (Input s2 GRAD))
                (data (Input s2 GRAD))
                (data (Input s2 MOMENTUM))
                (data (Output s2 OUTPUT_GRAD))
                (data (Output s2 OUTPUT_MOMENTUM))
                (data (Input s2 LR))
                (op_momentum this)
                (op_nesterov this)
                None
                (mem s2)\<rparr>))"

text \<open>
  \<^verbatim>\<open>MomentumSGDUpdateOp::RunOnDevice\<close> (lines 86--107): the same checks and resizes; the
  kernel gets the storage of \<^verbatim>\<open>Output(OUTPUT_PARAM)\<close>. \<^verbatim>\<open>Input(PARAM)\<close> is never read
  and \<^verbatim>\<open>Output(OUTPUT_PARAM)\<close> is never resized.
\<close>

definition MomentumSGDUpdateOp_RunOnDevice ::
  "'a operator \<Rightarrow> 'a state \<Rightarrow> (error + bool) \<times> ('a::{one,plus,minus,times}) state" where
  "MomentumSGDUpdateOp_RunOnDevice this s =
     (if tsize (Input s LR) \<noteq> 1 then (Inl EnforceNotMet, s)
      else if tsize (Input s GRAD) \<noteq> tsize (Input s MOMENTUM) then (Inl EnforceNotMet, s)
      else
        let s1 = resize_output OUTPUT_GRAD GRAD s;
            s2 = resize_output OUTPUT_MOMENTUM MOMENTUM s1
        in (Inr True,
            s2\<lparr>mem :=
              momentum_sgd_update
                (tsize (Input s2 GRAD))
                (data (Input s2 GRAD))
                (data (Input s2 MOMENTUM))
                (data (Output s2 OUTPUT_GRAD))
                (data (Output s2 OUTPUT_MOMENTUM))
                (data (Input s2 LR))
                (op_momentum this)
                (op_nesterov this)
                (Some (data (Output s2 OUTPUT_PARAM)))
                (mem s2)\<rparr>))"

section \<open>The sparse operator\<close>

text \<open>
  The row loop of \<^verbatim>\<open>DoRunWithType\<close> (lines 155--171). \<^verbatim>\<open>indices[i]\<close> is read at
  \<open>0 \<le> i < n\<close> only, and the caller has checked that the index list has \<open>n\<close> entries.
\<close>

function sparse_loop ::
  "int \<Rightarrow> int \<Rightarrow> addr \<Rightarrow> addr \<Rightarrow> addr \<Rightarrow> addr \<Rightarrow> addr \<Rightarrow> 'a \<Rightarrow> bool \<Rightarrow> addr \<Rightarrow> int list
    \<Rightarrow> int \<Rightarrow> 'a memory \<Rightarrow> ('a::{one,plus,minus,times}) memory" where
  "sparse_loop n block_size gradIn momentumIn gradOut momentumOut lr momentum nesterov paramOut
       indices i h =
     (if i < n
      then
        let idx = indices ! nat i;
            offsetI = i * block_size;
            offsetIdx = idx * block_size
        in sparse_loop n block_size gradIn momentumIn gradOut momentumOut lr momentum nesterov
             paramOut indices (i + 1)
             (momentum_sgd_update
                block_size
                (gradIn + offsetI)
                (momentumIn + offsetIdx)
                (gradOut + offsetI)
                (momentumOut + offsetIdx)
                lr
                momentum
                nesterov
                (Some (paramOut + offsetIdx))
                h)
      else h)"
  by pat_completeness auto
termination
  by (relation "measure (\<lambda>(n, block_size, gradIn, momentumIn, gradOut, momentumOut, lr, momentum,
                             nesterov, paramOut, indices, i, h). nat (n - i))")
    auto

declare sparse_loop.simps [simp del]

text \<open>
  The cells that row \<open>i\<close> of the loop hands to the kernel: it writes the gradient output
  row \<open>i\<close> and the momentum and parameter output rows \<open>indices[i]\<close>; it reads the learning
  rate, the gradient input row \<open>i\<close>, the momentum input row \<open>indices[i]\<close> and the parameter
  output row \<open>indices[i]\<close>.
\<close>

definition row_writes :: "int \<Rightarrow> addr \<Rightarrow> addr \<Rightarrow> addr \<Rightarrow> int list \<Rightarrow> int \<Rightarrow> addr \<Rightarrow> bool" where
  "row_writes block_size gradOut momentumOut paramOut indices i a \<longleftrightarrow>
     in_buffer (gradOut + i * block_size) block_size a \<or>
     in_buffer (momentumOut + (indices ! nat i) * block_size) block_size a \<or>
     in_buffer (paramOut + (indices ! nat i) * block_size) block_size a"

definition row_reads ::
  "int \<Rightarrow> addr \<Rightarrow> addr \<Rightarrow> addr \<Rightarrow> addr \<Rightarrow> int list \<Rightarrow> int \<Rightarrow> addr \<Rightarrow> bool" where
  "row_reads block_size gradIn momentumIn paramOut lr indices i a \<longleftrightarrow>
     a = lr \<or>
     in_buffer (gradIn + i * block_size) block_size a \<or>
     in_buffer (momentumIn + (indices ! nat i) * block_size) block_size a \<or>
     in_buffer (paramOut + (indices ! nat i) * block_size) block_size a"

text \<open>
  \<^verbatim>\<open>SparseMomentumSGDUpdateOp::DoRunWithType\<close> (lines 131--173). The two instances, for
  \<^verbatim>\<open>int32_t\<close> and \<^verbatim>\<open>int64_t\<close> indices, run the same code; index values are unbounded here.
  The pointer \<^verbatim>\<open>paramIn\<close> is fetched and never used, so it does not appear.
\<close>

definition DoRunWithType ::
  "'a operator \<Rightarrow> 'a state \<Rightarrow> (error + bool) \<times> ('a::{one,plus,minus,times}) state" where
  "DoRunWithType this s =
     (if tsize (Input s LR) \<noteq> 1 then (Inl EnforceNotMet, s)
      else if tsize (Input s PARAM) \<noteq> tsize (Input s MOMENTUM) then (Inl EnforceNotMet, s)
      else case tdim (Input s GRAD) 0 of
        None \<Rightarrow> (Inl DimOutOfRange, s)
      | Some d \<Rightarrow>
          if isize (INDICES s) \<noteq> d then (Inl EnforceNotMet, s)
          else
            let s1 = resize_output OUTPUT_GRAD GRAD s;
                s2 = resize_output OUTPUT_MOMENTUM MOMENTUM s1;
                s3 = resize_output OUTPUT_PARAM PARAM s2
            in (case tdim (Input s3 GRAD) 0 of
                 None \<Rightarrow> (Inl DimOutOfRange, s3)
               | Some n \<Rightarrow>
                   if n = 0 then (Inl DivisionByZero, s3)
                   else
                     let block_size = tsize (Input s3 GRAD) div n
                     in (Inr True,
                         s3\<lparr>mem :=
                           sparse_loop n block_size
                             (data (Input s3 GRAD))
                             (data (Input s3 MOMENTUM))
                             (data (Output s3 OUTPUT_GRAD))
                             (data (Output s3 OUTPUT_MOMENTUM))
                             (data (Input s3 LR))
                             (op_momentum this)
                             (op_nesterov this)
                             (data (Output s3 OUTPUT_PARAM))
                             (ivals (INDICES s3))
                             0
                             (mem s3)\<rparr>)))"

text \<open>
  \<^verbatim>\<open>SparseMomentumSGDUpdateOp::RunOnDevice\<close> (lines 125--128).
  Modelled from the spec: \<^verbatim>\<open>DispatchHelper\<close> (\<^verbatim>\<open>caffe2/core/operator.h\<close>) is not part of
  the sources at hand; it selects the instance for the index list's element type and fails
  the call for any other type.
\<close>

definition SparseMomentumSGDUpdateOp_RunOnDevice ::
  "'a operator \<Rightarrow> 'a state \<Rightarrow> (error + bool) \<times> ('a::{one,plus,minus,times}) state" where
  "SparseMomentumSGDUpdateOp_RunOnDevice this s =
     (case ityp (INDICES s) of
        Int32 \<Rightarrow> DoRunWithType this s
      | Int64 \<Rightarrow> DoRunWithType this s
      | OtherType \<Rightarrow> (Inl UnsupportedType, s))"

section \<open>Block-wise dense updates\<close>

text \<open>
  The reference for the sparse block partition, in the spec's words: ``calling
  DenseParameterUpdate n times, once per block''. Block \<open>k\<close> of a tensor is the tensor of
  \<open>bs\<close> elements whose storage starts \<open>k * bs\<close> cells into it; the \<open>k\<close>-th call runs
  \<^verbatim>\<open>MomentumSGDUpdateOp\<close> on block \<open>k\<close> of every gradient, momentum and parameter tensor,
  with the learning rate as it is, on the memory the previous call left.
\<close>

definition block_of :: "nat \<Rightarrow> int \<Rightarrow> tensor \<Rightarrow> tensor" where
  "block_of bs k t = \<lparr>dims = [bs], data = data t + k * int bs\<rparr>"

definition block_view :: "nat \<Rightarrow> int \<Rightarrow> 'a state \<Rightarrow> 'a state" where
  "block_view bs k s =
     s\<lparr>Input := (\<lambda>t. if t = LR then Input s LR else block_of bs k (Input s t)),
       Output := (\<lambda>t. block_of bs k (Output s t))\<rparr>"

function dense_per_block ::
  "'a operator \<Rightarrow> int \<Rightarrow> nat \<Rightarrow> int \<Rightarrow> 'a state \<Rightarrow> error + ('a::{one,plus,minus,times}) memory" where
  "dense_per_block this n bs k s =
     (if k < n
      then (case MomentumSGDUpdateOp_RunOnDevice this (block_view bs k s) of
              (Inl e, s') \<Rightarrow> Inl e
            | (Inr ok, s') \<Rightarrow> dense_per_block this n bs (k + 1) (s\<lparr>mem := mem s'\<rparr>))
      else Inr (mem s))"
  by pat_completeness auto
termination
  by (relation "measure (\<lambda>(this, n, bs, k, s). nat (n - k))") auto

declare dense_per_block.simps [simp del]

section \<open>An arithmetic with the special values of IEEE 754\<close>

text \<open>
  The kernel computes with \<^verbatim>\<open>float\<close>. The values below are the finite numbers (taken as
  real numbers: rounding is not modelled), the two infinities and NaN, with the IEEE 754
  rules for the special values: \<open>0 * \<infinity>\<close> and \<open>\<infinity> - \<infinity>\<close> are NaN and NaN propagates. On
  operands and results that a \<^verbatim>\<open>float\<close> represents exactly this is the \<^verbatim>\<open>float\<close> result.
\<close>

datatype fval = Finite real | PosInf | NegInf | NaN

definition inf_of :: "real \<Rightarrow> fval" where
  "inf_of a = (if a = 0 then NaN else if 0 < a then PosInf else NegInf)"

fun fneg :: "fval \<Rightarrow> fval" where
  "fneg (Finite a) = Finite (- a)"
| "fneg PosInf = NegInf"
| "fneg NegInf = PosInf"
| "fneg NaN = NaN"

instantiation fval :: "{zero, one, plus, minus, times}"
begin

definition zero_fval :: fval where
  "zero_fval = Finite 0"

definition one_fval :: fval where
  "one_fval = Finite 1"

fun plus_fval :: "fval \<Rightarrow> fval \<Rightarrow> fval" where
  "plus_fval (Finite a) (Finite b) = Finite (a + b)"
| "plus_fval NaN y = NaN"
| "plus_fval x NaN = NaN"
| "plus_fval PosInf NegInf = NaN"
| "plus_fval NegInf PosInf = NaN"
| "plus_fval PosInf y = PosInf"
| "plus_fval x PosInf = PosInf"
| "plus_fval NegInf y = NegInf"
| "plus_fval x NegInf = NegInf"

definition minus_fval :: "fval \<Rightarrow> fval \<Rightarrow> fval" where
  "minus_fval x y = x + fneg y"

fun times_fval :: "fval \<Rightarrow> fval \<Rightarrow> fval" where
  "times_fval (Finite a) (Finite b) = Finite (a * b)"
| "times_fval NaN y = NaN"
| "times_fval x NaN = NaN"
| "times_fval (Finite a) PosInf = inf_of a"
| "times_fval (Finite a) NegInf = inf_of (- a)"
| "times_fval PosInf (Finite b) = inf_of b"
| "times_fval NegInf (Finite b) = inf_of (- b)"
| "times_fval PosInf PosInf = PosInf"
| "times_fval PosInf NegInf = NegInf"
| "times_fval NegInf PosInf = NegInf"
| "times_fval NegInf NegInf = PosInf"

instance ..

end

section \<open>Example inputs\<close>

text \<open>
  The memory of the spec's end-to-end example: \<open>g = [1, 2, 3]\<close> at addresses 0 to 2,
  \<open>m = [0, 0, 0]\<close> at 3 to 5, the learning rate \<open>0.1\<close> at 6 and \<open>param = [1, 1, 1]\<close> at
  7 to 9; every other cell holds 0.
\<close>

definition example_mem :: "real memory" where
  "example_mem = (\<lambda>a. 0)(0 := 1, 1 := 2, 2 := 3, 6 := 1 / 10, 7 := 1, 8 := 1, 9 := 1)"



text \<open>
  An operator with momentum \<open>0.9\<close> and classic updates, and the state of an in-place call
  on the example memory: every output tensor has the storage of its input.
\<close>

definition example_op :: "real operator" where
  "example_op = \<lparr>op_momentum = 9 / 10, op_nesterov = False\<rparr>"

definition example_state :: "real state" where
  "example_state =
     \<lparr>Input = (\<lambda>t. case t of
                 GRAD \<Rightarrow> \<lparr>dims = [3], data = 0\<rparr>
               | MOMENTUM \<Rightarrow> \<lparr>dims = [3], data = 3\<rparr>
               | LR \<Rightarrow> \<lparr>dims = [1], data = 6\<rparr>
               | PARAM \<Rightarrow> \<lparr>dims = [3], data = 7\<rparr>),
      INDICES = \<lparr>ityp = Int32, ivals = [0, 1, 2]\<rparr>,
      Output = (\<lambda>t. case t of
                 OUTPUT_GRAD \<Rightarrow> \<lparr>dims = [3], data = 0\<rparr>
               | OUTPUT_MOMENTUM \<Rightarrow> \<lparr>dims = [3], data = 3\<rparr>
               | OUTPUT_PARAM \<Rightarrow> \<lparr>dims = [3], data = 7\<rparr>),
      mem = example_mem\<rparr>"

text \<open>
  Variations of the example state: a parameter tensor of two elements against a gradient
  of three; an output parameter tensor with storage of its own, at addresses 20 to 22,
  holding \<open>[5, 5, 5]\<close>; a momentum tensor shorter than the gradient and an index list
  shorter than the gradient's row count.
\<close>

definition example_state_short_param :: "real state" where
  "example_state_short_param =
     example_state\<lparr>Input := (Input example_state)(PARAM := \<lparr>dims = [2], data = 7\<rparr>),
                   Output := (Output example_state)(OUTPUT_PARAM := \<lparr>dims = [2], data = 7\<rparr>)\<rparr>"

definition example_state_distinct_param :: "real state" where
  "example_state_distinct_param =
     example_state\<lparr>Output := (Output example_state)(OUTPUT_PARAM := \<lparr>dims = [3], data = 20\<rparr>),
                   mem := example_mem(20 := 5, 21 := 5, 22 := 5)\<rparr>"

definition example_state_mismatch :: "real state" where
  "example_state_mismatch =
     example_state\<lparr>Input := (Input example_state)(MOMENTUM := \<lparr>dims = [2], data = 3\<rparr>),
                   INDICES := \<lparr>ityp = Int64, ivals = [0, 1]\<rparr>\<rparr>"

text \<open>
  A sparse call with the index list \<open>[5, 5]\<close>: two gradient rows of one element, \<open>[1]\<close>
  and \<open>[2]\<close>, momentum and parameters of six rows at addresses 10 to 15 and 20 to 25 with
  row 5 holding \<open>1\<close> and \<open>10\<close>, the learning rate \<open>0.1\<close> at 30, run in place. And a sparse
  call on two rows of two elements with the index list \<open>[0, 1]\<close>.
\<close>

definition example_state_duplicate :: "real state" where
  "example_state_duplicate =
     \<lparr>Input = (\<lambda>t. case t of
                 GRAD \<Rightarrow> \<lparr>dims = [2, 1], data = 0\<rparr>
               | MOMENTUM \<Rightarrow> \<lparr>dims = [6, 1], data = 10\<rparr>
               | LR \<Rightarrow> \<lparr>dims = [1], data = 30\<rparr>
               | PARAM \<Rightarrow> \<lparr>dims = [6, 1], data = 20\<rparr>),
      INDICES = \<lparr>ityp = Int64, ivals = [5, 5]\<rparr>,
      Output = (\<lambda>t. case t of
                 OUTPUT_GRAD \<Rightarrow> \<lparr>dims = [2, 1], data = 0\<rparr>
               | OUTPUT_MOMENTUM \<Rightarrow> \<lparr>dims = [6, 1], data = 10\<rparr>
               | OUTPUT_PARAM \<Rightarrow> \<lparr>dims = [6, 1], data = 20\<rparr>),
      mem = (\<lambda>a. 0)(0 := 1, 1 := 2, 15 := 1, 25 := 10, 30 := 1 / 10)\<rparr>"

text \<open>
  The same call with a third gradient row between the two: index list \<open>[5, 3, 5]\<close> and
  gradient rows \<open>[1]\<close>, \<open>[7]\<close> and \<open>[2]\<close>.
\<close>

definition example_state_repeat :: "real state" where
  "example_state_repeat =
     \<lparr>Input = (\<lambda>t. case t of
                 GRAD \<Rightarrow> \<lparr>dims = [3, 1], data = 0\<rparr>
               | MOMENTUM \<Rightarrow> \<lparr>dims = [6, 1], data = 10\<rparr>
               | LR \<Rightarrow> \<lparr>dims = [1], data = 30\<rparr>
               | PARAM \<Rightarrow> \<lparr>dims = [6, 1], data = 20\<rparr>),
      INDICES = \<lparr>ityp = Int64, ivals = [5, 3, 5]\<rparr>,
      Output = (\<lambda>t. case t of
                 OUTPUT_GRAD \<Rightarrow> \<lparr>dims = [3, 1], data = 0\<rparr>
               | OUTPUT_MOMENTUM \<Rightarrow> \<lparr>dims = [6, 1], data = 10\<rparr>
               | OUTPUT_PARAM \<Rightarrow> \<lparr>dims = [6, 1], data = 20\<rparr>),
      mem = (\<lambda>a. 0)(0 := 1, 1 := 7, 2 := 2, 15 := 1, 25 := 10, 30 := 1 / 10)\<rparr>"

definition example_state_rows :: "real state" where
  "example_state_rows =
     \<lparr>Input = (\<lambda>t. case t of
                 GRAD \<Rightarrow> \<lparr>dims = [2, 2], data = 0\<rparr>
               | MOMENTUM \<Rightarrow> \<lparr>dims = [2, 2], data = 10\<rparr>
               | LR \<Rightarrow> \<lparr>dims = [1], data = 6\<rparr>
               | PARAM \<Rightarrow> \<lparr>dims = [2, 2], data = 20\<rparr>),
      INDICES = \<lparr>ityp = Int32, ivals = [0, 1]\<rparr>,
      Output = (\<lambda>t. case t of
                 OUTPUT_GRAD \<Rightarrow> \<lparr>dims = [2, 2], data = 0\<rparr>
               | OUTPUT_MOMENTUM \<Rightarrow> \<lparr>dims = [2, 2], data = 10\<rparr>
               | OUTPUT_PARAM \<Rightarrow> \<lparr>dims = [2, 2], data = 20\<rparr>),
      mem = example_mem\<rparr>"

section \<open>Properties of the kernel\<close>

lemma update_step_other:
  assumes "a \<noteq> nm + i" "a \<noteq> ng + i" "\<And>p. param = Some p \<Longrightarrow> a \<noteq> p + i"
  shows "update_step g m ng nm lr0 momentum nesterov param i h a = h a"
  using assms by (cases param) (simp_all add: update_step_def Let_def)

lemma update_step_nm:
  assumes "nm + i \<noteq> ng + i" "\<And>p. param = Some p \<Longrightarrow> p + i \<noteq> nm + i"
  shows "update_step g m ng nm lr0 momentum nesterov param i h (nm + i) =
           nm_value nesterov lr0 momentum (h (g + i)) (h (m + i))"
  using assms by (cases param) (auto simp add: update_step_def Let_def nm_value_def)

lemma update_step_ng:
  assumes "\<And>p. param = Some p \<Longrightarrow> p + i \<noteq> ng + i"
  shows "update_step g m ng nm lr0 momentum nesterov param i h (ng + i) =
           ng_value nesterov lr0 momentum (h (g + i)) (h (m + i))"
  using assms by (cases param) (auto simp add: update_step_def Let_def ng_value_def)

lemma update_step_param:
  assumes "p + i \<noteq> ng + i" "p + i \<noteq> nm + i"
  shows "update_step g m ng nm lr0 momentum nesterov (Some p) i h (p + i) =
           h (p + i) - ng_value nesterov lr0 momentum (h (g + i)) (h (m + i))"
  using assms by (auto simp add: update_step_def Let_def ng_value_def)

lemma update_loop_unfold:
  "i < N \<Longrightarrow> update_loop N g m ng nm lr0 momentum nesterov param i h =
     update_loop N g m ng nm lr0 momentum nesterov param (i + 1)
       (update_step g m ng nm lr0 momentum nesterov param i h)"
  "\<not> i < N \<Longrightarrow> update_loop N g m ng nm lr0 momentum nesterov param i h = h"
  by (simp_all add: update_loop.simps [of N g m ng nm lr0 momentum nesterov param i h])

text \<open>Frame of the loop: a cell that no remaining iteration writes keeps its value.\<close>

lemma update_loop_other:
  assumes "\<And>j. i \<le> j \<Longrightarrow> j < N \<Longrightarrow>
             a \<noteq> nm + j \<and> a \<noteq> ng + j \<and> (\<forall>p. param = Some p \<longrightarrow> a \<noteq> p + j)"
  shows "update_loop N g m ng nm lr0 momentum nesterov param i h a = h a"
  using assms
proof (induction N g m ng nm lr0 momentum nesterov param i h rule: update_loop.induct)
  case (1 N g m ng nm lr0 momentum nesterov param i h)
  show ?case
  proof (cases "i < N")
    case True
    have later: "update_loop N g m ng nm lr0 momentum nesterov param (i + 1)
                   (update_step g m ng nm lr0 momentum nesterov param i h) a
                 = update_step g m ng nm lr0 momentum nesterov param i h a"
      by (rule "1.IH" [OF True]) (use "1.prems" in force)
    have here: "update_step g m ng nm lr0 momentum nesterov param i h a = h a"
      by (rule update_step_other) (use "1.prems" [of i] True in auto)
    show ?thesis
      using later here by (simp add: update_loop_unfold(1) [OF True])
  next
    case False
    then show ?thesis
      by (simp add: update_loop_unfold(2))
  qed
qed

lemma no_overlap_neq:
  "no_overlap N a b \<Longrightarrow> 0 \<le> i \<Longrightarrow> i < N \<Longrightarrow> 0 \<le> j \<Longrightarrow> j < N \<Longrightarrow> a + i \<noteq> b + j"
  by (auto simp add: no_overlap_def)

lemma same_or_apart_neq:
  "same_or_apart N a b \<Longrightarrow> 0 \<le> i \<Longrightarrow> i < N \<Longrightarrow> 0 \<le> j \<Longrightarrow> j < N \<Longrightarrow> i \<noteq> j
     \<Longrightarrow> a + i \<noteq> b + j"
  by (auto simp add: same_or_apart_def no_overlap_def)

lemma layout_okD:
  assumes "layout_ok N g m ng nm param"
  shows "no_overlap N ng nm" "no_overlap N nm ng"
    "same_or_apart N g ng" "same_or_apart N g nm"
    "same_or_apart N m ng" "same_or_apart N m nm"
    "param = Some p \<Longrightarrow> no_overlap N p ng"
    "param = Some p \<Longrightarrow> no_overlap N p nm"
    "param = Some p \<Longrightarrow> no_overlap N ng p"
    "param = Some p \<Longrightarrow> no_overlap N nm p"
    "param = Some p \<Longrightarrow> same_or_apart N g p"
    "param = Some p \<Longrightarrow> same_or_apart N m p"
  using assms by (auto simp add: layout_ok_def no_overlap_def)

lemma update_step_keeps_inputs:
  assumes lay: "layout_ok N g m ng nm param" and i: "0 \<le> i" "i < N" and j: "0 \<le> j" "j < N" "i \<noteq> j"
  shows "update_step g m ng nm lr0 momentum nesterov param i h (g + j) = h (g + j)"
    and "update_step g m ng nm lr0 momentum nesterov param i h (m + j) = h (m + j)"
    and "param = Some p \<Longrightarrow> update_step g m ng nm lr0 momentum nesterov param i h (p + j) = h (p + j)"
proof -
  show "update_step g m ng nm lr0 momentum nesterov param i h (g + j) = h (g + j)"
    by (rule update_step_other)
      (use same_or_apart_neq [OF _ j(1,2) i] layout_okD [OF lay] j(3) in auto)
  show "update_step g m ng nm lr0 momentum nesterov param i h (m + j) = h (m + j)"
    by (rule update_step_other)
      (use same_or_apart_neq [OF _ j(1,2) i] layout_okD [OF lay] j(3) in auto)
  show "update_step g m ng nm lr0 momentum nesterov param i h (p + j) = h (p + j)" if "param = Some p"
    by (rule update_step_other)
      (use that no_overlap_neq [OF _ j(1,2) i] layout_okD [OF lay] j(3) in auto)
qed

lemma update_loop_after_step:
  assumes lay: "layout_ok N g m ng nm param" and i: "0 \<le> i" "i < N"
  shows "update_loop N g m ng nm lr0 momentum nesterov param (i + 1) h' (nm + i) = h' (nm + i)"
    and "update_loop N g m ng nm lr0 momentum nesterov param (i + 1) h' (ng + i) = h' (ng + i)"
    and "param = Some p \<Longrightarrow>
         update_loop N g m ng nm lr0 momentum nesterov param (i + 1) h' (p + i) = h' (p + i)"
proof -
  note d = layout_okD [OF lay]
  show "update_loop N g m ng nm lr0 momentum nesterov param (i + 1) h' (nm + i) = h' (nm + i)"
  proof (rule update_loop_other, intro conjI allI impI)
    fix j assume j: "i + 1 \<le> j" "j < N"
    then have j0: "0 \<le> j" using i by simp
    show "nm + i \<noteq> nm + j" using j by simp
    show "nm + i \<noteq> ng + j" by (rule no_overlap_neq [OF d(2) i j0 j(2)])
    show "nm + i \<noteq> q + j" if "param = Some q" for q
      by (rule no_overlap_neq [OF d(10) [OF that] i j0 j(2)])
  qed
  show "update_loop N g m ng nm lr0 momentum nesterov param (i + 1) h' (ng + i) = h' (ng + i)"
  proof (rule update_loop_other, intro conjI allI impI)
    fix j assume j: "i + 1 \<le> j" "j < N"
    then have j0: "0 \<le> j" using i by simp
    show "ng + i \<noteq> ng + j" using j by simp
    show "ng + i \<noteq> nm + j" by (rule no_overlap_neq [OF d(1) i j0 j(2)])
    show "ng + i \<noteq> q + j" if "param = Some q" for q
      using no_overlap_neq [OF _ i j0 j(2)] layout_okD(9) [OF lay that] by blast
  qed
  show "update_loop N g m ng nm lr0 momentum nesterov param (i + 1) h' (p + i) = h' (p + i)"
    if p: "param = Some p"
  proof (rule update_loop_other, intro conjI allI impI)
    fix j assume j: "i + 1 \<le> j" "j < N"
    then have j0: "0 \<le> j" using i by simp
    show "p + i \<noteq> nm + j" by (rule no_overlap_neq [OF d(8) [OF p] i j0 j(2)])
    show "p + i \<noteq> ng + j" by (rule no_overlap_neq [OF d(7) [OF p] i j0 j(2)])
    show "p + i \<noteq> q + j" if "param = Some q" for q
      using p that j by simp
  qed
qed

text \<open>
  The closed form of the loop: under \<open>layout_ok\<close>, the iterations from \<open>i\<close> on leave at
  every index \<open>j\<close> they cover the values of the recurrence, computed from the values the
  memory held at \<open>g + j\<close>, \<open>m + j\<close> and \<open>param + j\<close> when the loop was entered.
\<close>

lemma update_loop_values:
  assumes "layout_ok N g m ng nm param" "0 \<le> i" "i \<le> j" "j < N"
  shows "update_loop N g m ng nm lr0 momentum nesterov param i h (nm + j) =
           nm_value nesterov lr0 momentum (h (g + j)) (h (m + j))
       \<and> update_loop N g m ng nm lr0 momentum nesterov param i h (ng + j) =
           ng_value nesterov lr0 momentum (h (g + j)) (h (m + j))
       \<and> (\<forall>p. param = Some p \<longrightarrow>
            update_loop N g m ng nm lr0 momentum nesterov param i h (p + j) =
              h (p + j) - ng_value nesterov lr0 momentum (h (g + j)) (h (m + j)))"
  using assms
proof (induction N g m ng nm lr0 momentum nesterov param i h rule: update_loop.induct)
  case (1 N g m ng nm lr0 momentum nesterov param i h)
  note lay = \<open>layout_ok N g m ng nm param\<close>
  note d = layout_okD [OF lay]
  have iN: "i < N" and j0: "0 \<le> j" using "1.prems" by auto
  let ?h' = "update_step g m ng nm lr0 momentum nesterov param i h"
  show ?case
  proof (cases "j = i")
    case True
    have sep: "nm + i \<noteq> ng + i" "\<And>p. param = Some p \<Longrightarrow> p + i \<noteq> nm + i"
      "\<And>p. param = Some p \<Longrightarrow> p + i \<noteq> ng + i"
      using no_overlap_neq [OF d(2) \<open>0 \<le> i\<close> iN \<open>0 \<le> i\<close> iN]
        no_overlap_neq [OF d(8) \<open>0 \<le> i\<close> iN \<open>0 \<le> i\<close> iN]
        no_overlap_neq [OF d(7) \<open>0 \<le> i\<close> iN \<open>0 \<le> i\<close> iN]
      by auto
    note after = update_loop_after_step [OF lay \<open>0 \<le> i\<close> iN]
    show ?thesis
      unfolding True update_loop_unfold(1) [OF iN]
    proof (intro conjI allI impI)
      show "update_loop N g m ng nm lr0 momentum nesterov param (i + 1) ?h' (nm + i) =
              nm_value nesterov lr0 momentum (h (g + i)) (h (m + i))"
        using sep by (simp add: after(1) update_step_nm)
      show "update_loop N g m ng nm lr0 momentum nesterov param (i + 1) ?h' (ng + i) =
              ng_value nesterov lr0 momentum (h (g + i)) (h (m + i))"
        using sep by (simp add: after(2) update_step_ng)
      fix p assume p: "param = Some p"
      have "update_loop N g m ng nm lr0 momentum nesterov param (i + 1) ?h' (p + i) = ?h' (p + i)"
        by (rule after(3) [OF p])
      also have "?h' (p + i) = h (p + i) - ng_value nesterov lr0 momentum (h (g + i)) (h (m + i))"
        unfolding p by (rule update_step_param) (use sep p in auto)
      finally show "update_loop N g m ng nm lr0 momentum nesterov param (i + 1) ?h' (p + i) =
          h (p + i) - ng_value nesterov lr0 momentum (h (g + i)) (h (m + i))" .
    qed
  next
    case False
    then have ij: "i + 1 \<le> j" "i \<noteq> j" using "1.prems" by auto
    have i1: "0 \<le> i + 1" using \<open>0 \<le> i\<close> by simp
    note IH = "1.IH" [OF iN lay i1 ij(1) \<open>j < N\<close>]
    note keep = update_step_keeps_inputs [OF lay \<open>0 \<le> i\<close> iN j0 \<open>j < N\<close> ij(2)]
    show ?thesis
      unfolding update_loop_unfold(1) [OF iN]
    proof (intro conjI allI impI)
      show "update_loop N g m ng nm lr0 momentum nesterov param (i + 1) ?h' (nm + j) =
              nm_value nesterov lr0 momentum (h (g + j)) (h (m + j))"
        using IH by (simp only: keep(1,2))
      show "update_loop N g m ng nm lr0 momentum nesterov param (i + 1) ?h' (ng + j) =
              ng_value nesterov lr0 momentum (h (g + j)) (h (m + j))"
        using IH by (simp only: keep(1,2))
      fix p assume p: "param = Some p"
      from IH p
      have "update_loop N g m ng nm lr0 momentum nesterov param (i + 1) ?h' (p + j) =
              ?h' (p + j) - ng_value nesterov lr0 momentum (?h' (g + j)) (?h' (m + j))"
        by blast
      then show "update_loop N g m ng nm lr0 momentum nesterov param (i + 1) ?h' (p + j) =
              h (p + j) - ng_value nesterov lr0 momentum (h (g + j)) (h (m + j))"
        by (simp only: keep(1,2) keep(3) [OF p])
    qed
  qed
qed

text \<open>
  C1: in a well-laid-out call with \<open>nesterov = false\<close>, every index \<open>i\<close> in \<open>[0, N)\<close> ends
  with \<open>nm[i] = ng[i] = LR * g[i] + momentum * m[i]\<close>, where \<open>LR\<close>, \<open>g[i]\<close> and \<open>m[i]\<close> are
  the values before the call; with a parameter row, \<open>param[i]\<close> ends as its value before
  the call minus \<open>ng[i]\<close>.
\<close>

theorem classic_update_values:
  assumes "layout_ok N g m ng nm param" "0 \<le> i" "i < N"
  shows "momentum_sgd_update N g m ng nm lr momentum False param h (nm + i) =
           h lr * h (g + i) + momentum * h (m + i)
       \<and> momentum_sgd_update N g m ng nm lr momentum False param h (ng + i) =
           h lr * h (g + i) + momentum * h (m + i)
       \<and> (\<forall>p. param = Some p \<longrightarrow>
            momentum_sgd_update N g m ng nm lr momentum False param h (p + i) =
              h (p + i) - momentum_sgd_update N g m ng nm lr momentum False param h (ng + i))"
  using update_loop_values [OF assms(1) order_refl [of 0] assms(2,3), of "h lr" momentum False h]
  by (cases param) (simp_all add: momentum_sgd_update_def nm_value_def ng_value_def)

theorem classic_update_values_witness:
  "layout_ok 3 0 3 10 13 (Some 7) \<and> (0::int) \<le> 2 \<and> (2::int) < 3
   \<and> momentum_sgd_update 3 0 3 10 13 6 (9 / 10) False (Some 7) example_mem (13 + 2) = 3 / 10
   \<and> momentum_sgd_update 3 0 3 10 13 6 (9 / 10) False (Some 7) example_mem (10 + 2) = 3 / 10
   \<and> momentum_sgd_update 3 0 3 10 13 6 (9 / 10) False (Some 7) example_mem (7 + 2) = 7 / 10"
proof -
  have lay: "layout_ok 3 0 3 10 13 (Some 7)"
    by (simp add: layout_ok_def no_overlap_def same_or_apart_def)
  have i: "(0::int) \<le> 2" "(2::int) < 3" by simp_all
  show ?thesis
    using lay classic_update_values [OF lay i, of 6 "9 / 10" example_mem]
    by (simp add: example_mem_def)
qed

text \<open>
  C2: in a well-laid-out call with \<open>nesterov = true\<close>, every index \<open>i\<close> in \<open>[0, N)\<close> ends
  with \<open>nm[i] = momentum * m[i] + LR * g[i]\<close> and
  \<open>ng[i] = (1 + momentum) * nm[i] - momentum * m[i]\<close>, where \<open>m[i]\<close> is the momentum value
  before the call; with a parameter row, \<open>param[i]\<close> is decremented by \<open>ng[i]\<close>.
\<close>

theorem nesterov_update_values:
  assumes "layout_ok N g m ng nm param" "0 \<le> i" "i < N"
  shows "momentum_sgd_update N g m ng nm lr momentum True param h (nm + i) =
           momentum * h (m + i) + h lr * h (g + i)
       \<and> momentum_sgd_update N g m ng nm lr momentum True param h (ng + i) =
           (1 + momentum) * momentum_sgd_update N g m ng nm lr momentum True param h (nm + i)
             - momentum * h (m + i)
       \<and> (\<forall>p. param = Some p \<longrightarrow>
            momentum_sgd_update N g m ng nm lr momentum True param h (p + i) =
              h (p + i) - momentum_sgd_update N g m ng nm lr momentum True param h (ng + i))"
  using update_loop_values [OF assms(1) order_refl [of 0] assms(2,3), of "h lr" momentum True h]
  by (cases param) (simp_all add: momentum_sgd_update_def nm_value_def ng_value_def)

theorem nesterov_update_values_witness:
  "layout_ok 3 0 3 0 3 (Some 7) \<and> (0::int) \<le> 1 \<and> (1::int) < 3
   \<and> momentum_sgd_update 3 0 3 0 3 6 (1 / 2) True (Some 7) example_mem (3 + 1) = 1 / 5
   \<and> momentum_sgd_update 3 0 3 0 3 6 (1 / 2) True (Some 7) example_mem (0 + 1) = 3 / 10
   \<and> momentum_sgd_update 3 0 3 0 3 6 (1 / 2) True (Some 7) example_mem (7 + 1) = 7 / 10"
proof -
  have lay: "layout_ok 3 0 3 0 3 (Some 7)"
    by (simp add: layout_ok_def no_overlap_def same_or_apart_def)
  have i: "(0::int) \<le> 1" "(1::int) < 3" by simp_all
  show ?thesis
    using lay nesterov_update_values [OF lay i, of 6 "1 / 2" example_mem]
    by (simp add: example_mem_def)
qed




text \<open>
  The kernel's result depends only on the cells it reads: two memories that agree on a set
  of cells holding all of them give results that agree on that set.
\<close>

lemma update_step_agree:
  assumes "\<forall>y\<in>A. h1 y = h2 y" "g + i \<in> A" "m + i \<in> A" "\<forall>p. param = Some p \<longrightarrow> p + i \<in> A"
    and "x \<in> A"
  shows "update_step g m ng nm lr0 momentum nesterov param i h1 x =
         update_step g m ng nm lr0 momentum nesterov param i h2 x"
  using assms by (cases param) (auto simp add: update_step_def Let_def)

lemma update_loop_agree:
  assumes "\<forall>y\<in>A. h1 y = h2 y"
    and "\<forall>j. i \<le> j \<and> j < N \<longrightarrow> g + j \<in> A \<and> m + j \<in> A \<and> (\<forall>p. param = Some p \<longrightarrow> p + j \<in> A)"
  shows "\<forall>y\<in>A. update_loop N g m ng nm lr0 momentum nesterov param i h1 y =
                update_loop N g m ng nm lr0 momentum nesterov param i h2 y"
  using assms
proof (induction N g m ng nm lr0 momentum nesterov param i h1 arbitrary: h2
    rule: update_loop.induct)
  case (1 N g m ng nm lr0 momentum nesterov param i h1)
  show ?case
  proof (cases "i < N")
    case True
    have here: "g + i \<in> A" "m + i \<in> A" "\<forall>p. param = Some p \<longrightarrow> p + i \<in> A"
      using "1.prems"(2) True by auto
    have step: "\<forall>y\<in>A. update_step g m ng nm lr0 momentum nesterov param i h1 y =
                       update_step g m ng nm lr0 momentum nesterov param i h2 y"
      using update_step_agree [OF "1.prems"(1) here] by blast
    have rest: "\<forall>j. i + 1 \<le> j \<and> j < N \<longrightarrow>
                  g + j \<in> A \<and> m + j \<in> A \<and> (\<forall>p. param = Some p \<longrightarrow> p + j \<in> A)"
      using "1.prems"(2) by auto
    show ?thesis
      using "1.IH" [OF True step rest]
      by (simp add: update_loop_unfold(1) [OF True])
  next
    case False
    then show ?thesis
      using "1.prems"(1) by (simp add: update_loop_unfold(2))
  qed
qed

lemma momentum_sgd_update_agree:
  assumes "\<forall>y\<in>A. h1 y = h2 y" "lr \<in> A"
    and "\<forall>j. 0 \<le> j \<and> j < N \<longrightarrow> g + j \<in> A \<and> m + j \<in> A \<and> (\<forall>p. param = Some p \<longrightarrow> p + j \<in> A)"
    and "x \<in> A"
  shows "momentum_sgd_update N g m ng nm lr momentum nesterov param h1 x =
         momentum_sgd_update N g m ng nm lr momentum nesterov param h2 x"
proof -
  have "h1 lr = h2 lr" using assms(1,2) by blast
  then show ?thesis
    using update_loop_agree [OF assms(1,3), of ng nm "h2 lr" momentum nesterov] assms(4)
    by (simp add: momentum_sgd_update_def)
qed

text \<open>
  C8: from the same memory, the kernel run with \<open>ng = g\<close> and \<open>nm = m\<close> and the kernel run
  with any other well-laid-out output buffers \<open>ng\<close>, \<open>nm\<close> (buffers of their own among
  them) end with the same values, index for index, in the gradient output, in the momentum
  output and, with a parameter row, in the parameters; for either branch.
\<close>

theorem aliasing_invariance:
  assumes "layout_ok N g m g m param" "layout_ok N g m ng nm param" "0 \<le> i" "i < N"
  shows "momentum_sgd_update N g m g m lr momentum nesterov param h (g + i) =
           momentum_sgd_update N g m ng nm lr momentum nesterov param h (ng + i)
       \<and> momentum_sgd_update N g m g m lr momentum nesterov param h (m + i) =
           momentum_sgd_update N g m ng nm lr momentum nesterov param h (nm + i)
       \<and> (\<forall>p. param = Some p \<longrightarrow>
            momentum_sgd_update N g m g m lr momentum nesterov param h (p + i) =
              momentum_sgd_update N g m ng nm lr momentum nesterov param h (p + i))"
  using update_loop_values [OF assms(1) order_refl [of 0] assms(3,4), of "h lr" momentum nesterov h]
    update_loop_values [OF assms(2) order_refl [of 0] assms(3,4), of "h lr" momentum nesterov h]
  by (cases param) (simp_all add: momentum_sgd_update_def)

theorem aliasing_invariance_witness:
  "layout_ok 3 0 3 0 3 (Some 7) \<and> layout_ok 3 0 3 10 13 (Some 7) \<and> (0::int) \<le> 1 \<and> (1::int) < 3
   \<and> momentum_sgd_update 3 0 3 0 3 6 (1 / 2) True (Some 7) example_mem (0 + 1) =
       momentum_sgd_update 3 0 3 10 13 6 (1 / 2) True (Some 7) example_mem (10 + 1)
   \<and> momentum_sgd_update 3 0 3 0 3 6 (1 / 2) True (Some 7) example_mem (3 + 1) =
       momentum_sgd_update 3 0 3 10 13 6 (1 / 2) True (Some 7) example_mem (13 + 1)
   \<and> momentum_sgd_update 3 0 3 0 3 6 (1 / 2) True (Some 7) example_mem (7 + 1) =
       momentum_sgd_update 3 0 3 10 13 6 (1 / 2) True (Some 7) example_mem (7 + 1)"
proof -
  have lay1: "layout_ok 3 0 3 0 3 (Some 7)"
    by (simp add: layout_ok_def no_overlap_def same_or_apart_def)
  have lay2: "layout_ok 3 0 3 10 13 (Some 7)"
    by (simp add: layout_ok_def no_overlap_def same_or_apart_def)
  have i: "(0::int) \<le> 1" "(1::int) < 3" by simp_all
  show ?thesis
    using lay1 lay2
      aliasing_invariance [OF lay1 lay2 i, of 6 "1 / 2" True example_mem]
    by simp
qed


section \<open>Properties of the dense operators\<close>

lemma resize_output_simps [simp]:
  "Input (resize_output out inp s) = Input s"
  "INDICES (resize_output out inp s) = INDICES s"
  "mem (resize_output out inp s) = mem s"
  "data (Output (resize_output out inp s) t) = data (Output s t)"
  "t \<noteq> out \<Longrightarrow> Output (resize_output out inp s) t = Output s t"
  by (simp_all add: resize_output_def ResizeLike_def)

lemma MomentumSGDOp_RunOnDevice_ok:
  assumes "tsize (Input s LR) = 1" "tsize (Input s GRAD) = tsize (Input s MOMENTUM)"
  shows "fst (MomentumSGDOp_RunOnDevice this s) = Inr True"
    and "mem (snd (MomentumSGDOp_RunOnDevice this s)) =
           momentum_sgd_update (tsize (Input s GRAD)) (data (Input s GRAD))
             (data (Input s MOMENTUM)) (data (Output s OUTPUT_GRAD))
             (data (Output s OUTPUT_MOMENTUM)) (data (Input s LR))
             (op_momentum this) (op_nesterov this) None (mem s)"
    and "Input (snd (MomentumSGDOp_RunOnDevice this s)) = Input s"
    and "INDICES (snd (MomentumSGDOp_RunOnDevice this s)) = INDICES s"
    and "Output (snd (MomentumSGDOp_RunOnDevice this s)) OUTPUT_PARAM = Output s OUTPUT_PARAM"
  using assms by (simp_all add: MomentumSGDOp_RunOnDevice_def Let_def)

lemma MomentumSGDOp_RunOnDevice_success:
  assumes "fst (MomentumSGDOp_RunOnDevice this s) = Inr True"
  shows "tsize (Input s LR) = 1" "tsize (Input s GRAD) = tsize (Input s MOMENTUM)"
  using assms by (auto simp add: MomentumSGDOp_RunOnDevice_def Let_def split: if_splits)

lemma MomentumSGDUpdateOp_RunOnDevice_ok:
  assumes "tsize (Input s LR) = 1" "tsize (Input s GRAD) = tsize (Input s MOMENTUM)"
  shows "fst (MomentumSGDUpdateOp_RunOnDevice this s) = Inr True"
    and "mem (snd (MomentumSGDUpdateOp_RunOnDevice this s)) =
           momentum_sgd_update (tsize (Input s GRAD)) (data (Input s GRAD))
             (data (Input s MOMENTUM)) (data (Output s OUTPUT_GRAD))
             (data (Output s OUTPUT_MOMENTUM)) (data (Input s LR))
             (op_momentum this) (op_nesterov this) (Some (data (Output s OUTPUT_PARAM))) (mem s)"
  using assms by (simp_all add: MomentumSGDUpdateOp_RunOnDevice_def Let_def)

lemma momentum_sgd_update_other:
  assumes "\<not> in_buffer ng N a" "\<not> in_buffer nm N a" "\<And>p. param = Some p \<Longrightarrow> \<not> in_buffer p N a"
  shows "momentum_sgd_update N g m ng nm lr momentum nesterov param h a = h a"
  unfolding momentum_sgd_update_def Let_def
  by (rule update_loop_other) (use assms in \<open>auto simp add: in_buffer_def\<close>)

text \<open>
  C9: a successful \<^verbatim>\<open>MomentumSGDOp\<close> run changes no memory cell outside the output gradient
  buffer and the output momentum buffer, so every parameter value stored elsewhere is what
  it was; the input tensors and the tensor behind \<^verbatim>\<open>OUTPUT_PARAM\<close> are untouched as well.
\<close>

theorem dense_gradient_update_frame:
  assumes "fst (MomentumSGDOp_RunOnDevice this s) = Inr True"
  shows "(\<forall>a. \<not> in_buffer (data (Output s OUTPUT_GRAD)) (tsize (Input s GRAD)) a \<and>
              \<not> in_buffer (data (Output s OUTPUT_MOMENTUM)) (tsize (Input s GRAD)) a \<longrightarrow>
              mem (snd (MomentumSGDOp_RunOnDevice this s)) a = mem s a)
       \<and> Input (snd (MomentumSGDOp_RunOnDevice this s)) = Input s
       \<and> Output (snd (MomentumSGDOp_RunOnDevice this s)) OUTPUT_PARAM = Output s OUTPUT_PARAM"
proof -
  note ok = MomentumSGDOp_RunOnDevice_success [OF assms]
  note run = MomentumSGDOp_RunOnDevice_ok [OF ok]
  have "mem (snd (MomentumSGDOp_RunOnDevice this s)) a = mem s a"
    if "\<not> in_buffer (data (Output s OUTPUT_GRAD)) (tsize (Input s GRAD)) a"
      and "\<not> in_buffer (data (Output s OUTPUT_MOMENTUM)) (tsize (Input s GRAD)) a" for a
    unfolding run(2) by (rule momentum_sgd_update_other) (use that in simp_all)
  then show ?thesis
    by (simp add: run(3,5))
qed

theorem dense_gradient_update_frame_witness:
  "fst (MomentumSGDOp_RunOnDevice example_op example_state) = Inr True
   \<and> mem (snd (MomentumSGDOp_RunOnDevice example_op example_state)) 7 = 1
   \<and> mem (snd (MomentumSGDOp_RunOnDevice example_op example_state)) 8 = 1
   \<and> mem (snd (MomentumSGDOp_RunOnDevice example_op example_state)) 9 = 1"
proof -
  have ok: "fst (MomentumSGDOp_RunOnDevice example_op example_state) = Inr True"
    by (simp add: MomentumSGDOp_RunOnDevice_def example_state_def tsize_def Let_def)
  show ?thesis
    using ok dense_gradient_update_frame [OF ok]
    by (simp add: in_buffer_def example_state_def example_mem_def tsize_def)
qed

lemma dense_update_param_value:
  assumes "tsize (Input s LR) = 1" "tsize (Input s GRAD) = tsize (Input s MOMENTUM)"
    and "layout_ok (tsize (Input s GRAD)) (data (Input s GRAD)) (data (Input s MOMENTUM))
           (data (Output s OUTPUT_GRAD)) (data (Output s OUTPUT_MOMENTUM))
           (Some (data (Output s OUTPUT_PARAM)))"
    and "0 \<le> i" "i < tsize (Input s GRAD)"
  shows "mem (snd (MomentumSGDUpdateOp_RunOnDevice this s)) (data (Output s OUTPUT_PARAM) + i) =
           mem s (data (Output s OUTPUT_PARAM) + i)
             - mem (snd (MomentumSGDUpdateOp_RunOnDevice this s)) (data (Output s OUTPUT_GRAD) + i)"
  using update_loop_values [OF assms(3) order_refl [of 0] assms(4,5),
      of "mem s (data (Input s LR))" "op_momentum this" "op_nesterov this" "mem s"]
  by (simp add: MomentumSGDUpdateOp_RunOnDevice_ok [OF assms(1,2)] momentum_sgd_update_def)

text \<open>
  C10: \<^verbatim>\<open>MomentumSGDUpdateOp\<close> checks only that the learning rate has one element and that
  gradient and momentum have the same size \<open>N\<close>. With a parameter tensor of any other size
  the run still succeeds, and the kernel still updates \<open>N\<close> parameter cells from the
  storage address of \<^verbatim>\<open>Output(OUTPUT_PARAM)\<close> on.
\<close>

theorem dense_parameter_length_unchecked:
  assumes "tsize (Input s LR) = 1" "tsize (Input s GRAD) = tsize (Input s MOMENTUM)"
    and "tsize (Output s OUTPUT_PARAM) \<noteq> tsize (Input s GRAD)
         \<or> tsize (Input s PARAM) \<noteq> tsize (Input s GRAD)"
    and "layout_ok (tsize (Input s GRAD)) (data (Input s GRAD)) (data (Input s MOMENTUM))
           (data (Output s OUTPUT_GRAD)) (data (Output s OUTPUT_MOMENTUM))
           (Some (data (Output s OUTPUT_PARAM)))"
    and "0 \<le> i" "i < tsize (Input s GRAD)"
  shows "fst (MomentumSGDUpdateOp_RunOnDevice this s) = Inr True
       \<and> mem (snd (MomentumSGDUpdateOp_RunOnDevice this s)) (data (Output s OUTPUT_PARAM) + i) =
           mem s (data (Output s OUTPUT_PARAM) + i)
             - mem (snd (MomentumSGDUpdateOp_RunOnDevice this s)) (data (Output s OUTPUT_GRAD) + i)"
  using MomentumSGDUpdateOp_RunOnDevice_ok(1) [OF assms(1,2)]
    dense_update_param_value [OF assms(1,2,4,5,6)]
  by simp

theorem dense_parameter_length_unchecked_witness:
  "tsize (Output example_state_short_param OUTPUT_PARAM) = 2
   \<and> tsize (Input example_state_short_param GRAD) = 3
   \<and> fst (MomentumSGDUpdateOp_RunOnDevice example_op example_state_short_param) = Inr True
   \<and> mem (snd (MomentumSGDUpdateOp_RunOnDevice example_op example_state_short_param)) (7 + 2) =
       1 - mem (snd (MomentumSGDUpdateOp_RunOnDevice example_op example_state_short_param)) (0 + 2)"
proof -
  have a: "tsize (Input example_state_short_param LR) = 1"
    "tsize (Input example_state_short_param GRAD) = tsize (Input example_state_short_param MOMENTUM)"
    "tsize (Output example_state_short_param OUTPUT_PARAM) \<noteq> tsize (Input example_state_short_param GRAD)
     \<or> tsize (Input example_state_short_param PARAM) \<noteq> tsize (Input example_state_short_param GRAD)"
    by (simp_all add: example_state_short_param_def example_state_def tsize_def)
  have lay: "layout_ok (tsize (Input example_state_short_param GRAD))
      (data (Input example_state_short_param GRAD)) (data (Input example_state_short_param MOMENTUM))
      (data (Output example_state_short_param OUTPUT_GRAD))
      (data (Output example_state_short_param OUTPUT_MOMENTUM))
      (Some (data (Output example_state_short_param OUTPUT_PARAM)))"
    by (simp add: example_state_short_param_def example_state_def tsize_def layout_ok_def
        no_overlap_def same_or_apart_def)
  have i: "(0::int) \<le> 2" "2 < tsize (Input example_state_short_param GRAD)"
    by (simp_all add: example_state_short_param_def example_state_def tsize_def)
  have sz: "tsize (Output example_state_short_param OUTPUT_PARAM) = 2"
    "tsize (Input example_state_short_param GRAD) = 3"
    by (simp_all add: example_state_short_param_def example_state_def tsize_def)
  have c: "data (Output example_state_short_param OUTPUT_PARAM) = 7"
    "data (Output example_state_short_param OUTPUT_GRAD) = 0"
    "mem example_state_short_param 9 = 1"
    by (simp_all add: example_state_short_param_def example_state_def example_mem_def)
  show ?thesis
    using sz dense_parameter_length_unchecked [OF a lay i, of example_op]
    by (simp add: c)
qed

text \<open>
  C4, as amended: \<^verbatim>\<open>MomentumSGDUpdateOp\<close> never reads the input parameter tensor. After a
  successful, well-laid-out run each of the \<open>N\<close> cells of the output parameter buffer holds
  the value that same cell held before the run minus the step \<open>ng[i]\<close>, and the memory
  the run leaves does not depend on which tensor is wired to \<^verbatim>\<open>PARAM\<close>. The output is the
  input minus the step when the host runs the operator in place.
\<close>

theorem dense_parameter_update_in_place:
  assumes "tsize (Input s LR) = 1" "tsize (Input s GRAD) = tsize (Input s MOMENTUM)"
    and "layout_ok (tsize (Input s GRAD)) (data (Input s GRAD)) (data (Input s MOMENTUM))
           (data (Output s OUTPUT_GRAD)) (data (Output s OUTPUT_MOMENTUM))
           (Some (data (Output s OUTPUT_PARAM)))"
    and "0 \<le> i" "i < tsize (Input s GRAD)"
  shows "mem (snd (MomentumSGDUpdateOp_RunOnDevice this s)) (data (Output s OUTPUT_PARAM) + i) =
           mem s (data (Output s OUTPUT_PARAM) + i)
             - mem (snd (MomentumSGDUpdateOp_RunOnDevice this s)) (data (Output s OUTPUT_GRAD) + i)
       \<and> mem (snd (MomentumSGDUpdateOp_RunOnDevice this (s\<lparr>Input := (Input s)(PARAM := t)\<rparr>))) =
           mem (snd (MomentumSGDUpdateOp_RunOnDevice this s))"
proof -
  have "mem (snd (MomentumSGDUpdateOp_RunOnDevice this (s\<lparr>Input := (Input s)(PARAM := t)\<rparr>))) =
          mem (snd (MomentumSGDUpdateOp_RunOnDevice this s))"
    by (simp add: MomentumSGDUpdateOp_RunOnDevice_def Let_def resize_output_def ResizeLike_def)
  then show ?thesis
    using dense_update_param_value [OF assms] by simp
qed

theorem dense_parameter_update_in_place_witness:
  "tsize (Input example_state GRAD) = 3
   \<and> data (Output example_state OUTPUT_PARAM) = data (Input example_state PARAM)
   \<and> mem (snd (MomentumSGDUpdateOp_RunOnDevice example_op example_state)) (7 + 0) =
       1 - mem (snd (MomentumSGDUpdateOp_RunOnDevice example_op example_state)) (0 + 0)"
proof -
  have a: "tsize (Input example_state LR) = 1"
    "tsize (Input example_state GRAD) = tsize (Input example_state MOMENTUM)"
    by (simp_all add: example_state_def tsize_def)
  have lay: "layout_ok (tsize (Input example_state GRAD))
      (data (Input example_state GRAD)) (data (Input example_state MOMENTUM))
      (data (Output example_state OUTPUT_GRAD)) (data (Output example_state OUTPUT_MOMENTUM))
      (Some (data (Output example_state OUTPUT_PARAM)))"
    by (simp add: example_state_def tsize_def layout_ok_def no_overlap_def same_or_apart_def)
  have i: "(0::int) \<le> 0" "0 < tsize (Input example_state GRAD)"
    by (simp_all add: example_state_def tsize_def)
  have c: "tsize (Input example_state GRAD) = 3"
    "data (Output example_state OUTPUT_PARAM) = 7" "data (Input example_state PARAM) = 7"
    "data (Output example_state OUTPUT_GRAD) = 0" "mem example_state 7 = 1"
    by (simp_all add: example_state_def example_mem_def tsize_def)
  show ?thesis
    using dense_parameter_update_in_place [OF a lay i, of example_op]
    by (simp add: c)
qed

text \<open>
  C4, as stated, fails: with the output parameter buffer at addresses 20 to 22 holding
  \<open>[5, 5, 5]\<close> and the input parameter buffer at 7 to 9 holding \<open>[1, 1, 1]\<close>, the run
  succeeds and leaves \<open>5 - 0.1 = 4.9\<close> in the first output cell, not \<open>1 - 0.1 = 0.9\<close>.
\<close>

theorem dense_parameter_update_counterexample:
  "fst (MomentumSGDUpdateOp_RunOnDevice example_op example_state_distinct_param) = Inr True
   \<and> no_overlap 3 (data (Input example_state_distinct_param PARAM))
        (data (Output example_state_distinct_param OUTPUT_PARAM))
   \<and> mem (snd (MomentumSGDUpdateOp_RunOnDevice example_op example_state_distinct_param))
        (data (Output example_state_distinct_param OUTPUT_PARAM) + 0) = 49 / 10
   \<and> mem example_state_distinct_param (data (Input example_state_distinct_param PARAM) + 0)
        - mem (snd (MomentumSGDUpdateOp_RunOnDevice example_op example_state_distinct_param))
            (data (Output example_state_distinct_param OUTPUT_GRAD) + 0) = 9 / 10
   \<and> mem (snd (MomentumSGDUpdateOp_RunOnDevice example_op example_state_distinct_param))
        (data (Output example_state_distinct_param OUTPUT_PARAM) + 0) \<noteq>
      mem example_state_distinct_param (data (Input example_state_distinct_param PARAM) + 0)
        - mem (snd (MomentumSGDUpdateOp_RunOnDevice example_op example_state_distinct_param))
            (data (Output example_state_distinct_param OUTPUT_GRAD) + 0)"
  by (simp add: MomentumSGDUpdateOp_RunOnDevice_def example_state_distinct_param_def
      example_state_def example_op_def example_mem_def tsize_def Let_def resize_output_def
      ResizeLike_def momentum_sgd_update_def update_loop.simps update_step_def no_overlap_def)

text \<open>
  C6: a dense run whose learning rate does not have one element, or whose gradient and
  momentum sizes differ, fails with \<^verbatim>\<open>EnforceNotMet\<close> and returns the state it was given;
  so does a sparse run whose learning rate does not have one element, whose parameter and
  momentum sizes differ, or whose index list is not as long as the gradient has rows:
  \<^verbatim>\<open>DoRunWithType\<close> always, and \<^verbatim>\<open>RunOnDevice\<close> once the dispatch on the index type has
  selected an instance (for any other index type \<^verbatim>\<open>RunOnDevice\<close> fails at the dispatch,
  and returns the state it was given all the same).
\<close>

theorem shape_validation:
  "(tsize (Input s LR) \<noteq> 1 \<or> tsize (Input s GRAD) \<noteq> tsize (Input s MOMENTUM) \<longrightarrow>
      MomentumSGDOp_RunOnDevice this s = (Inl EnforceNotMet, s) \<and>
      MomentumSGDUpdateOp_RunOnDevice this s = (Inl EnforceNotMet, s))
   \<and> (tsize (Input s LR) \<noteq> 1 \<or> tsize (Input s PARAM) \<noteq> tsize (Input s MOMENTUM) \<or>
        (\<exists>d. tdim (Input s GRAD) 0 = Some d \<and> isize (INDICES s) \<noteq> d) \<longrightarrow>
      DoRunWithType this s = (Inl EnforceNotMet, s) \<and>
      isl (fst (SparseMomentumSGDUpdateOp_RunOnDevice this s)) \<and>
      snd (SparseMomentumSGDUpdateOp_RunOnDevice this s) = s \<and>
      (ityp (INDICES s) \<noteq> OtherType \<longrightarrow>
         SparseMomentumSGDUpdateOp_RunOnDevice this s = (Inl EnforceNotMet, s)))"
proof (intro conjI impI)
  assume "tsize (Input s LR) \<noteq> 1 \<or> tsize (Input s GRAD) \<noteq> tsize (Input s MOMENTUM)"
  then show "MomentumSGDOp_RunOnDevice this s = (Inl EnforceNotMet, s)"
    and "MomentumSGDUpdateOp_RunOnDevice this s = (Inl EnforceNotMet, s)"
    by (auto simp add: MomentumSGDOp_RunOnDevice_def MomentumSGDUpdateOp_RunOnDevice_def)
next
  assume bad: "tsize (Input s LR) \<noteq> 1 \<or> tsize (Input s PARAM) \<noteq> tsize (Input s MOMENTUM) \<or>
        (\<exists>d. tdim (Input s GRAD) 0 = Some d \<and> isize (INDICES s) \<noteq> d)"
  then show run: "DoRunWithType this s = (Inl EnforceNotMet, s)"
    by (auto simp add: DoRunWithType_def)
  show "isl (fst (SparseMomentumSGDUpdateOp_RunOnDevice this s))"
    and "snd (SparseMomentumSGDUpdateOp_RunOnDevice this s) = s"
    using run
    by (cases "ityp (INDICES s)"; simp add: SparseMomentumSGDUpdateOp_RunOnDevice_def)+
  assume "ityp (INDICES s) \<noteq> OtherType"
  then show "SparseMomentumSGDUpdateOp_RunOnDevice this s = (Inl EnforceNotMet, s)"
    using run by (cases "ityp (INDICES s)") (simp_all add: SparseMomentumSGDUpdateOp_RunOnDevice_def)
qed

theorem shape_validation_witness:
  "tsize (Input example_state_mismatch GRAD) \<noteq> tsize (Input example_state_mismatch MOMENTUM)
   \<and> MomentumSGDOp_RunOnDevice example_op example_state_mismatch =
       (Inl EnforceNotMet, example_state_mismatch)
   \<and> MomentumSGDUpdateOp_RunOnDevice example_op example_state_mismatch =
       (Inl EnforceNotMet, example_state_mismatch)
   \<and> tdim (Input example_state_mismatch GRAD) 0 = Some 3
   \<and> isize (INDICES example_state_mismatch) \<noteq> 3
   \<and> ityp (INDICES example_state_mismatch) \<noteq> OtherType
   \<and> SparseMomentumSGDUpdateOp_RunOnDevice example_op example_state_mismatch =
       (Inl EnforceNotMet, example_state_mismatch)"
proof -
  have a: "tsize (Input example_state_mismatch GRAD) \<noteq> tsize (Input example_state_mismatch MOMENTUM)"
    by (simp add: example_state_mismatch_def example_state_def tsize_def)
  have b: "tdim (Input example_state_mismatch GRAD) 0 = Some 3"
    "isize (INDICES example_state_mismatch) \<noteq> 3"
    "ityp (INDICES example_state_mismatch) \<noteq> OtherType"
    by (simp_all add: example_state_mismatch_def example_state_def tdim_def isize_def)
  show ?thesis
    using a b shape_validation [of example_state_mismatch example_op]
    by simp
qed

section \<open>Properties of the sparse operator\<close>

lemma sparse_loop_unfold:
  "i < n \<Longrightarrow>
     sparse_loop n block_size gradIn momentumIn gradOut momentumOut lr momentum nesterov paramOut
       indices i h =
     sparse_loop n block_size gradIn momentumIn gradOut momentumOut lr momentum nesterov paramOut
       indices (i + 1)
       (momentum_sgd_update block_size (gradIn + i * block_size)
          (momentumIn + (indices ! nat i) * block_size) (gradOut + i * block_size)
          (momentumOut + (indices ! nat i) * block_size) lr momentum nesterov
          (Some (paramOut + (indices ! nat i) * block_size)) h)"
  "\<not> i < n \<Longrightarrow>
     sparse_loop n block_size gradIn momentumIn gradOut momentumOut lr momentum nesterov paramOut
       indices i h = h"
  by (simp_all add: Let_def sparse_loop.simps [of n block_size gradIn momentumIn gradOut
        momentumOut lr momentum nesterov paramOut indices i h])

lemma DoRunWithType_ok:
  assumes "tsize (Input s LR) = 1" "tsize (Input s PARAM) = tsize (Input s MOMENTUM)"
    and "dims (Input s GRAD) = n # rest" "0 < n" "length (ivals (INDICES s)) = n"
  shows "fst (DoRunWithType this s) = Inr True"
    and "mem (snd (DoRunWithType this s)) =
           sparse_loop (int n) (int (prod_list rest))
             (data (Input s GRAD)) (data (Input s MOMENTUM))
             (data (Output s OUTPUT_GRAD)) (data (Output s OUTPUT_MOMENTUM))
             (data (Input s LR)) (op_momentum this) (op_nesterov this)
             (data (Output s OUTPUT_PARAM)) (ivals (INDICES s)) 0 (mem s)"
proof -
  have d: "tdim (Input s GRAD) 0 = Some (int n)"
    using assms(3) by (simp add: tdim_def)
  have sz: "tsize (Input s GRAD) div int n = int (prod_list rest)"
    using assms(3,4) by (simp add: tsize_def)
  show "fst (DoRunWithType this s) = Inr True"
    using assms d by (simp add: DoRunWithType_def isize_def Let_def)
  show "mem (snd (DoRunWithType this s)) =
           sparse_loop (int n) (int (prod_list rest))
             (data (Input s GRAD)) (data (Input s MOMENTUM))
             (data (Output s OUTPUT_GRAD)) (data (Output s OUTPUT_MOMENTUM))
             (data (Input s LR)) (op_momentum this) (op_nesterov this)
             (data (Output s OUTPUT_PARAM)) (ivals (INDICES s)) 0 (mem s)"
    using assms d sz by (simp add: DoRunWithType_def isize_def Let_def)
qed

lemma SparseMomentumSGDUpdateOp_RunOnDevice_dispatch:
  "ityp (INDICES s) \<noteq> OtherType \<Longrightarrow>
     SparseMomentumSGDUpdateOp_RunOnDevice this s = DoRunWithType this s"
  by (cases "ityp (INDICES s)") (simp_all add: SparseMomentumSGDUpdateOp_RunOnDevice_def)

text \<open>
  The row loop runs the rows one after the other: the rows up to \<open>k\<close>, then the rest; a
  single row is one kernel call; a cell that no remaining row writes keeps its value.
\<close>

lemma sparse_loop_split:
  assumes "i \<le> k" "k \<le> n"
  shows "sparse_loop n block_size gradIn momentumIn gradOut momentumOut lr momentum nesterov
           paramOut indices i h =
         sparse_loop n block_size gradIn momentumIn gradOut momentumOut lr momentum nesterov
           paramOut indices k
           (sparse_loop k block_size gradIn momentumIn gradOut momentumOut lr momentum nesterov
              paramOut indices i h)"
  using assms
proof (induction k block_size gradIn momentumIn gradOut momentumOut lr momentum nesterov
    paramOut indices i h rule: sparse_loop.induct)
  case (1 k block_size gradIn momentumIn gradOut momentumOut lr momentum nesterov paramOut
      indices i h)
  show ?case
  proof (cases "i < k")
    case True
    then have "i < n" using "1.prems" by simp
    show ?thesis
      using "1.IH" [OF True refl refl refl] "1.prems" True
      by (simp add: sparse_loop_unfold(1) [OF True] sparse_loop_unfold(1) [OF \<open>i < n\<close>])
  next
    case False
    then have "i = k" using "1.prems" by simp
    then show ?thesis by (simp add: sparse_loop_unfold(2))
  qed
qed

lemma sparse_loop_single:
  "sparse_loop (i + 1) block_size gradIn momentumIn gradOut momentumOut lr momentum nesterov
     paramOut indices i h =
   momentum_sgd_update block_size (gradIn + i * block_size)
     (momentumIn + (indices ! nat i) * block_size) (gradOut + i * block_size)
     (momentumOut + (indices ! nat i) * block_size) lr momentum nesterov
     (Some (paramOut + (indices ! nat i) * block_size)) h"
  by (simp add: sparse_loop_unfold)

lemma sparse_loop_other:
  assumes "\<forall>c. i \<le> c \<and> c < n \<longrightarrow> \<not> row_writes block_size gradOut momentumOut paramOut indices c x"
  shows "sparse_loop n block_size gradIn momentumIn gradOut momentumOut lr momentum nesterov
           paramOut indices i h x = h x"
  using assms
proof (induction n block_size gradIn momentumIn gradOut momentumOut lr momentum nesterov
    paramOut indices i h rule: sparse_loop.induct)
  case (1 n block_size gradIn momentumIn gradOut momentumOut lr momentum nesterov paramOut
      indices i h)
  show ?case
  proof (cases "i < n")
    case True
    have nw: "\<not> row_writes block_size gradOut momentumOut paramOut indices i x"
      using "1.prems" True by simp
    have here: "momentum_sgd_update block_size (gradIn + i * block_size)
        (momentumIn + (indices ! nat i) * block_size) (gradOut + i * block_size)
        (momentumOut + (indices ! nat i) * block_size) lr momentum nesterov
        (Some (paramOut + (indices ! nat i) * block_size)) h x = h x"
      by (rule momentum_sgd_update_other) (use nw in \<open>simp_all add: row_writes_def\<close>)
    have later: "\<forall>c. i + 1 \<le> c \<and> c < n \<longrightarrow>
        \<not> row_writes block_size gradOut momentumOut paramOut indices c x"
      using "1.prems" by simp
    show ?thesis
      using "1.IH" [OF True refl refl refl later] here
      by (simp add: sparse_loop_unfold(1) [OF True])
  next
    case False
    then show ?thesis by (simp add: sparse_loop_unfold(2))
  qed
qed

text \<open>
  C3: let rows \<open>a < b\<close> of the gradient carry the same index \<open>idx\<close>, in an index list of any
  length (for \<open>[5, 5]\<close>: \<open>a = 0\<close>, \<open>b = 1\<close>). The run succeeds, so nothing detects the
  conflict, and the memory it leaves is, in list order: the rows before \<open>a\<close>, the kernel's
  update for row \<open>a\<close> at row \<open>idx\<close>, the rows between, the kernel's update for row \<open>b\<close> at
  row \<open>idx\<close>, the rows after \<open>b\<close>. Last write wins: a cell that no row after \<open>b\<close> writes,
  and that no row between \<open>a\<close> and \<open>b\<close> touches (neither the cell nor what row \<open>b\<close> reads),
  ends with the value that the update for row \<open>b\<close> alone gives it on the memory left by the
  update for row \<open>a\<close>. For adjacent rows, as in \<open>[5, 5]\<close>, that is every cell.
\<close>

theorem duplicate_index_in_list_order:
  assumes "ityp (INDICES s) \<noteq> OtherType"
    and "tsize (Input s LR) = 1" "tsize (Input s PARAM) = tsize (Input s MOMENTUM)"
    and "dims (Input s GRAD) = n # rest" "length (ivals (INDICES s)) = n"
    and "0 \<le> a" "a < b" "b < int n"
    and "ivals (INDICES s) ! nat a = idx" "ivals (INDICES s) ! nat b = idx"
  shows
    "let bs = int (prod_list rest);
         gI = data (Input s GRAD); mI = data (Input s MOMENTUM); lr = data (Input s LR);
         gO = data (Output s OUTPUT_GRAD); mO = data (Output s OUTPUT_MOMENTUM);
         pO = data (Output s OUTPUT_PARAM); ix = ivals (INDICES s);
         rows = (\<lambda>k i h. sparse_loop k bs gI mI gO mO lr (op_momentum this) (op_nesterov this)
                            pO ix i h);
         row = (\<lambda>c h. momentum_sgd_update bs (gI + c * bs) (mI + idx * bs) (gO + c * bs)
                         (mO + idx * bs) lr (op_momentum this) (op_nesterov this)
                         (Some (pO + idx * bs)) h);
         first = row a (rows a 0 (mem s));
         final = mem (snd (SparseMomentumSGDUpdateOp_RunOnDevice this s))
     in fst (SparseMomentumSGDUpdateOp_RunOnDevice this s) = Inr True
      \<and> final = rows (int n) (b + 1) (row b (rows b (a + 1) first))
      \<and> (\<forall>x. (\<forall>c. b < c \<and> c < int n \<longrightarrow> \<not> row_writes bs gO mO pO ix c x) \<and>
              (\<forall>c y. a < c \<and> c < b \<and> (y = x \<or> row_reads bs gI mI pO lr ix b y) \<longrightarrow>
                     \<not> row_writes bs gO mO pO ix c y)
              \<longrightarrow> final x = row b first x)"
proof -
  define bs where "bs = int (prod_list rest)"
  define gI where "gI = data (Input s GRAD)"
  define mI where "mI = data (Input s MOMENTUM)"
  define lr where "lr = data (Input s LR)"
  define gO where "gO = data (Output s OUTPUT_GRAD)"
  define mO where "mO = data (Output s OUTPUT_MOMENTUM)"
  define pO where "pO = data (Output s OUTPUT_PARAM)"
  define ix where "ix = ivals (INDICES s)"
  define rows where "rows = (\<lambda>k i h. sparse_loop k bs gI mI gO mO lr (op_momentum this)
                                (op_nesterov this) pO ix i h)"
  define row where "row = (\<lambda>c h. momentum_sgd_update bs (gI + c * bs) (mI + idx * bs)
                             (gO + c * bs) (mO + idx * bs) lr (op_momentum this)
                             (op_nesterov this) (Some (pO + idx * bs)) h)"
  define first where "first = row a (rows a 0 (mem s))"
  define between where "between = rows b (a + 1) first"
  define final where "final = mem (snd (SparseMomentumSGDUpdateOp_RunOnDevice this s))"
  have n0: "0 < n" using assms(6,7,8) by simp
  note run = DoRunWithType_ok [OF assms(2,3,4) n0 assms(5), of this]
  have ok: "fst (SparseMomentumSGDUpdateOp_RunOnDevice this s) = Inr True"
    unfolding SparseMomentumSGDUpdateOp_RunOnDevice_dispatch [OF assms(1)] by (rule run(1))
  have fin: "final = rows (int n) 0 (mem s)"
    unfolding final_def SparseMomentumSGDUpdateOp_RunOnDevice_dispatch [OF assms(1)] run(2)
    by (simp add: rows_def bs_def gI_def mI_def lr_def gO_def mO_def pO_def ix_def)
  have single_a: "rows (a + 1) a h = row a h" for h
    using assms(9) by (simp add: rows_def row_def sparse_loop_single ix_def)
  have single_b: "rows (b + 1) b h = row b h" for h
    using assms(10) by (simp add: rows_def row_def sparse_loop_single ix_def)
  have split: "i \<le> k \<Longrightarrow> k \<le> m \<Longrightarrow> rows m i h = rows m k (rows k i h)" for i k m h
    unfolding rows_def by (rule sparse_loop_split)
  have "rows (int n) 0 (mem s) = rows (int n) (b + 1) (rows (b + 1) 0 (mem s))"
    by (rule split) (use assms(6,7,8) in simp_all)
  also have "rows (b + 1) 0 (mem s) = rows (b + 1) b (rows b 0 (mem s))"
    by (rule split) (use assms(6,7) in simp_all)
  also have "rows b 0 (mem s) = rows b (a + 1) (rows (a + 1) 0 (mem s))"
    by (rule split) (use assms(6,7) in simp_all)
  also have "rows (a + 1) 0 (mem s) = rows (a + 1) a (rows a 0 (mem s))"
    by (rule split) (use assms(6) in simp_all)
  finally have seq: "final = rows (int n) (b + 1) (row b between)"
    by (simp add: fin single_a single_b first_def between_def)
  have last: "final x = row b first x"
    if after: "\<forall>c. b < c \<and> c < int n \<longrightarrow> \<not> row_writes bs gO mO pO ix c x"
      and mid: "\<forall>c y. a < c \<and> c < b \<and> (y = x \<or> row_reads bs gI mI pO lr ix b y) \<longrightarrow>
                  \<not> row_writes bs gO mO pO ix c y" for x
  proof -
    let ?A = "{y. y = x \<or> row_reads bs gI mI pO lr ix b y}"
    have "final x = row b between x"
      unfolding seq rows_def by (rule sparse_loop_other) (use after in simp)
    also have "row b between x = row b first x"
      unfolding row_def
    proof (rule momentum_sgd_update_agree [where A = ?A])
      show "\<forall>y\<in>?A. between y = first y"
        unfolding between_def rows_def
      proof
        fix y assume y: "y \<in> ?A"
        show "sparse_loop b bs gI mI gO mO lr (op_momentum this) (op_nesterov this) pO ix
                (a + 1) first y = first y"
          by (rule sparse_loop_other) (use mid y in auto)
      qed
      show "lr \<in> ?A" by (simp add: row_reads_def)
      show "\<forall>j. 0 \<le> j \<and> j < bs \<longrightarrow>
              gI + b * bs + j \<in> ?A \<and> mI + idx * bs + j \<in> ?A \<and>
              (\<forall>p. Some (pO + idx * bs) = Some p \<longrightarrow> p + j \<in> ?A)"
        using assms(10) by (auto simp add: row_reads_def in_buffer_def ix_def)
      show "x \<in> ?A" by simp
    qed
    finally show ?thesis .
  qed
  have "fst (SparseMomentumSGDUpdateOp_RunOnDevice this s) = Inr True
      \<and> final = rows (int n) (b + 1) (row b (rows b (a + 1) first))
      \<and> (\<forall>x. (\<forall>c. b < c \<and> c < int n \<longrightarrow> \<not> row_writes bs gO mO pO ix c x) \<and>
              (\<forall>c y. a < c \<and> c < b \<and> (y = x \<or> row_reads bs gI mI pO lr ix b y) \<longrightarrow>
                     \<not> row_writes bs gO mO pO ix c y)
              \<longrightarrow> final x = row b first x)"
    using ok seq last by (simp add: between_def)
  then show ?thesis
    unfolding Let_def final_def first_def row_def rows_def bs_def gI_def mI_def lr_def gO_def
      mO_def pO_def ix_def .
qed

theorem duplicate_index_in_list_order_witness:
  "ivals (INDICES example_state_duplicate) = [5, 5]
   \<and> fst (SparseMomentumSGDUpdateOp_RunOnDevice example_op example_state_duplicate) = Inr True
   \<and> mem (snd (SparseMomentumSGDUpdateOp_RunOnDevice example_op example_state_duplicate)) 15 = 11 / 10
   \<and> mem (snd (SparseMomentumSGDUpdateOp_RunOnDevice example_op example_state_duplicate)) 25 = 79 / 10
   \<and> ivals (INDICES example_state_repeat) = [5, 3, 5]
   \<and> fst (SparseMomentumSGDUpdateOp_RunOnDevice example_op example_state_repeat) = Inr True
   \<and> mem (snd (SparseMomentumSGDUpdateOp_RunOnDevice example_op example_state_repeat)) 15 = 11 / 10
   \<and> mem (snd (SparseMomentumSGDUpdateOp_RunOnDevice example_op example_state_repeat)) 25 = 79 / 10"
proof -
  have a2: "ityp (INDICES example_state_duplicate) \<noteq> OtherType"
    "tsize (Input example_state_duplicate LR) = 1"
    "tsize (Input example_state_duplicate PARAM) = tsize (Input example_state_duplicate MOMENTUM)"
    "dims (Input example_state_duplicate GRAD) = 2 # [1]"
    "length (ivals (INDICES example_state_duplicate)) = 2"
    "(0::int) \<le> 0" "(0::int) < 1" "(1::int) < int 2"
    "ivals (INDICES example_state_duplicate) ! nat 0 = 5"
    "ivals (INDICES example_state_duplicate) ! nat 1 = 5"
    by (simp_all add: example_state_duplicate_def tsize_def)
  have c2: "data (Input example_state_duplicate GRAD) = 0"
    "data (Input example_state_duplicate MOMENTUM) = 10"
    "data (Input example_state_duplicate LR) = 30"
    "data (Output example_state_duplicate OUTPUT_GRAD) = 0"
    "data (Output example_state_duplicate OUTPUT_MOMENTUM) = 10"
    "data (Output example_state_duplicate OUTPUT_PARAM) = 20"
    "ivals (INDICES example_state_duplicate) = [5, 5]"
    by (simp_all add: example_state_duplicate_def)
  have v2: "momentum_sgd_update 1 1 15 1 15 30 (op_momentum example_op) (op_nesterov example_op)
             (Some 25)
             (momentum_sgd_update 1 0 15 0 15 30 (op_momentum example_op)
                (op_nesterov example_op) (Some 25) (mem example_state_duplicate)) 15 = 11 / 10"
    "momentum_sgd_update 1 1 15 1 15 30 (op_momentum example_op) (op_nesterov example_op)
             (Some 25)
             (momentum_sgd_update 1 0 15 0 15 30 (op_momentum example_op)
                (op_nesterov example_op) (Some 25) (mem example_state_duplicate)) 25 = 79 / 10"
    by (simp_all add: example_state_duplicate_def example_op_def momentum_sgd_update_def
        update_loop.simps update_step_def Let_def)
  have after2: "\<forall>c. (1::int) < c \<and> c < 2 \<longrightarrow> \<not> row_writes 1 0 10 20 [5, 5] c x" for x
    by auto
  have mid2: "\<forall>c y. (0::int) < c \<and> c < 1 \<and> (y = x \<or> row_reads 1 0 10 20 30 [5, 5] 1 y) \<longrightarrow>
               \<not> row_writes 1 0 10 20 [5, 5] c y" for x
    by auto
  note inst2 = duplicate_index_in_list_order [OF a2, of example_op, unfolded Let_def]
  note ok2 = inst2 [THEN conjunct1]
  note last2 = inst2 [THEN conjunct2, THEN conjunct2]
  have m2: "mem (snd (SparseMomentumSGDUpdateOp_RunOnDevice example_op example_state_duplicate)) 15
              = 11 / 10"
    using last2 [THEN spec, of 15] after2 [of 15] mid2 [of 15] v2(1)
    by (simp add: c2 sparse_loop_unfold(2))
  have p2: "mem (snd (SparseMomentumSGDUpdateOp_RunOnDevice example_op example_state_duplicate)) 25
              = 79 / 10"
    using last2 [THEN spec, of 25] after2 [of 25] mid2 [of 25] v2(2)
    by (simp add: c2 sparse_loop_unfold(2))
  have a: "ityp (INDICES example_state_repeat) \<noteq> OtherType"
    "tsize (Input example_state_repeat LR) = 1"
    "tsize (Input example_state_repeat PARAM) = tsize (Input example_state_repeat MOMENTUM)"
    "dims (Input example_state_repeat GRAD) = 3 # [1]"
    "length (ivals (INDICES example_state_repeat)) = 3"
    "(0::int) \<le> 0" "(0::int) < 2" "(2::int) < int 3"
    "ivals (INDICES example_state_repeat) ! nat 0 = 5"
    "ivals (INDICES example_state_repeat) ! nat 2 = 5"
    by (simp_all add: example_state_repeat_def tsize_def)
  have c: "data (Input example_state_repeat GRAD) = 0"
    "data (Input example_state_repeat MOMENTUM) = 10"
    "data (Input example_state_repeat LR) = 30"
    "data (Output example_state_repeat OUTPUT_GRAD) = 0"
    "data (Output example_state_repeat OUTPUT_MOMENTUM) = 10"
    "data (Output example_state_repeat OUTPUT_PARAM) = 20"
    "ivals (INDICES example_state_repeat) = [5, 3, 5]"
    by (simp_all add: example_state_repeat_def)
  have after: "\<forall>c. (2::int) < c \<and> c < 3 \<longrightarrow> \<not> row_writes 1 0 10 20 [5, 3, 5] c x" for x
    by auto
  have mid: "\<forall>c y. (0::int) < c \<and> c < 2 \<and> (y = x \<or> row_reads 1 0 10 20 30 [5, 3, 5] 2 y) \<longrightarrow>
               \<not> row_writes 1 0 10 20 [5, 3, 5] c y" if "x = 15 \<or> x = 25" for x
  proof (intro allI impI)
    fix c :: int and y :: int
    assume h: "0 < c \<and> c < 2 \<and> (y = x \<or> row_reads 1 0 10 20 30 [5, 3, 5] 2 y)"
    then have "c = 1" by arith
    then show "\<not> row_writes 1 0 10 20 [5, 3, 5] c y"
      using h that by (auto simp add: row_writes_def row_reads_def in_buffer_def)
  qed
  have v: "momentum_sgd_update 1 2 15 2 15 30 (op_momentum example_op) (op_nesterov example_op)
             (Some 25)
             (momentum_sgd_update 1 0 15 0 15 30 (op_momentum example_op)
                (op_nesterov example_op) (Some 25) (mem example_state_repeat)) 15 = 11 / 10"
    "momentum_sgd_update 1 2 15 2 15 30 (op_momentum example_op) (op_nesterov example_op)
             (Some 25)
             (momentum_sgd_update 1 0 15 0 15 30 (op_momentum example_op)
                (op_nesterov example_op) (Some 25) (mem example_state_repeat)) 25 = 79 / 10"
    by (simp_all add: example_state_repeat_def example_op_def momentum_sgd_update_def
        update_loop.simps update_step_def Let_def)
  note inst = duplicate_index_in_list_order [OF a, of example_op, unfolded Let_def]
  note ok = inst [THEN conjunct1]
  note last = inst [THEN conjunct2, THEN conjunct2]
  have m3: "mem (snd (SparseMomentumSGDUpdateOp_RunOnDevice example_op example_state_repeat)) 15
              = 11 / 10"
    using last [THEN spec, of 15] after [of 15] mid [of 15] v(1)
    by (simp add: c sparse_loop_unfold(2))
  have p3: "mem (snd (SparseMomentumSGDUpdateOp_RunOnDevice example_op example_state_repeat)) 25
              = 79 / 10"
    using last [THEN spec, of 25] after [of 25] mid [of 25] v(2)
    by (simp add: c sparse_loop_unfold(2))
  show ?thesis
    using ok2 c2(7) m2 p2 ok c(7) m3 p3 by simp
qed

lemma block_view_simps [simp]:
  "Input (block_view bs k s) LR = Input s LR"
  "t \<noteq> LR \<Longrightarrow> tsize (Input (block_view bs k s) t) = int bs"
  "t \<noteq> LR \<Longrightarrow> data (Input (block_view bs k s) t) = data (Input s t) + k * int bs"
  "data (Output (block_view bs k s) u) = data (Output s u) + k * int bs"
  "mem (block_view bs k s) = mem s"
  by (simp_all add: block_view_def block_of_def tsize_def)

lemma dense_per_block_unfold:
  "k < n \<Longrightarrow> dense_per_block this n bs k s =
     (case MomentumSGDUpdateOp_RunOnDevice this (block_view bs k s) of
        (Inl e, s') \<Rightarrow> Inl e
      | (Inr ok, s') \<Rightarrow> dense_per_block this n bs (k + 1) (s\<lparr>mem := mem s'\<rparr>))"
  "\<not> k < n \<Longrightarrow> dense_per_block this n bs k s = Inr (mem s)"
  by (simp_all add: dense_per_block.simps [of this n bs k s])

lemma dense_per_block_sparse_loop:
  assumes "tsize (Input s LR) = 1" "0 \<le> k"
    and "\<And>j. 0 \<le> j \<Longrightarrow> j < n \<Longrightarrow> indices ! nat j = j"
  shows "dense_per_block this n bs k s =
           Inr (sparse_loop n (int bs)
                  (data (Input s GRAD)) (data (Input s MOMENTUM))
                  (data (Output s OUTPUT_GRAD)) (data (Output s OUTPUT_MOMENTUM))
                  (data (Input s LR)) (op_momentum this) (op_nesterov this)
                  (data (Output s OUTPUT_PARAM)) indices k (mem s))"
  using assms
proof (induction this n bs k s rule: dense_per_block.induct)
  case (1 this n bs k s)
  show ?case
  proof (cases "k < n")
    case True
    let ?b = "block_view bs k s"
    have lr1: "tsize (Input ?b LR) = 1" using "1.prems"(1) by simp
    have eq: "tsize (Input ?b GRAD) = tsize (Input ?b MOMENTUM)" by simp
    note ok = MomentumSGDUpdateOp_RunOnDevice_ok [OF lr1 eq, of this]
    obtain r s' where run: "MomentumSGDUpdateOp_RunOnDevice this ?b = (r, s')"
      by (cases "MomentumSGDUpdateOp_RunOnDevice this ?b")
    have r: "r = Inr True" using ok(1) run by simp
    have m': "mem s' =
        momentum_sgd_update (int bs) (data (Input s GRAD) + k * int bs)
          (data (Input s MOMENTUM) + k * int bs) (data (Output s OUTPUT_GRAD) + k * int bs)
          (data (Output s OUTPUT_MOMENTUM) + k * int bs) (data (Input s LR))
          (op_momentum this) (op_nesterov this)
          (Some (data (Output s OUTPUT_PARAM) + k * int bs)) (mem s)"
      using ok(2) run by simp
    have idx: "indices ! nat k = k" using "1.prems"(2,3) True by simp
    have IH: "dense_per_block this n bs (k + 1) (s\<lparr>mem := mem s'\<rparr>) =
        Inr (sparse_loop n (int bs)
               (data (Input s GRAD)) (data (Input s MOMENTUM))
               (data (Output s OUTPUT_GRAD)) (data (Output s OUTPUT_MOMENTUM))
               (data (Input s LR)) (op_momentum this) (op_nesterov this)
               (data (Output s OUTPUT_PARAM)) indices (k + 1) (mem s'))"
      using "1.IH" [OF True run [symmetric] r] "1.prems"
      by simp
    show ?thesis
      by (simp add: dense_per_block_unfold(1) [OF True] run r IH [unfolded m']
          sparse_loop_unfold(1) [OF True] idx m')
  next
    case False
    then show ?thesis
      by (simp add: dense_per_block_unfold(2) sparse_loop_unfold(2))
  qed
qed

text \<open>
  C5: for a gradient of \<open>n > 0\<close> rows, with \<open>block_size = total / n\<close>, a sparse run with
  the index list \<open>[0, 1, ..., n - 1]\<close> succeeds and leaves the memory that \<open>n\<close> runs of
  \<^verbatim>\<open>MomentumSGDUpdateOp\<close>, one per block in ascending order, leave.
\<close>

theorem sparse_block_partition:
  assumes "ityp (INDICES s) \<noteq> OtherType"
    and "tsize (Input s LR) = 1" "tsize (Input s PARAM) = tsize (Input s MOMENTUM)"
    and "dims (Input s GRAD) = n # rest" "0 < n"
    and "ivals (INDICES s) = map int [0..<n]"
  shows "fst (SparseMomentumSGDUpdateOp_RunOnDevice this s) = Inr True
       \<and> dense_per_block this (int n) (nat (tsize (Input s GRAD) div int n)) 0 s =
           Inr (mem (snd (SparseMomentumSGDUpdateOp_RunOnDevice this s)))"
proof -
  have len: "length (ivals (INDICES s)) = n" using assms(6) by simp
  note run = DoRunWithType_ok [OF assms(2,3,4,5) len, of this]
  have bs: "nat (tsize (Input s GRAD) div int n) = prod_list rest"
    using assms(4,5) by (simp add: tsize_def)
  have idx: "ivals (INDICES s) ! nat j = j" if "0 \<le> j" "j < int n" for j
    using that by (simp add: assms(6))
  have "dense_per_block this (int n) (prod_list rest) 0 s =
          Inr (mem (snd (DoRunWithType this s)))"
    unfolding run(2)
    by (rule dense_per_block_sparse_loop [OF assms(2) order_refl idx])
  then show ?thesis
    unfolding SparseMomentumSGDUpdateOp_RunOnDevice_dispatch [OF assms(1)] bs
    using run(1) by simp
qed

theorem sparse_block_partition_witness:
  "ityp (INDICES example_state_rows) \<noteq> OtherType
   \<and> dims (Input example_state_rows GRAD) = [2, 2]
   \<and> ivals (INDICES example_state_rows) = [0, 1]
   \<and> fst (SparseMomentumSGDUpdateOp_RunOnDevice example_op example_state_rows) = Inr True
   \<and> dense_per_block example_op 2 2 0 example_state_rows =
       Inr (mem (snd (SparseMomentumSGDUpdateOp_RunOnDevice example_op example_state_rows)))"
proof -
  have a: "ityp (INDICES example_state_rows) \<noteq> OtherType"
    "tsize (Input example_state_rows LR) = 1"
    "tsize (Input example_state_rows PARAM) = tsize (Input example_state_rows MOMENTUM)"
    "dims (Input example_state_rows GRAD) = 2 # [2]"
    "0 < (2::nat)"
    "ivals (INDICES example_state_rows) = map int [0..<2]"
    by (simp_all add: example_state_rows_def tsize_def upt_conv_Cons)
  have b: "nat (tsize (Input example_state_rows GRAD) div int 2) = 2"
    by (simp add: example_state_rows_def tsize_def)
  have c: "ivals (INDICES example_state_rows) = [0, 1]"
    by (simp add: example_state_rows_def)
  show ?thesis
    using a(1,4) c sparse_block_partition [OF a, of example_op] b
    by simp
qed

end
